theory Spec2Isabelle
  imports Complex_Main "HOL-Library.Multiset"
begin

section \<open>Tender-Radar: risk indicators, scoring engine and ingestion\<close>

text \<open>
  The development follows the repository's layout: the indicator bank
  (\<^verbatim>\<open>app/features/indicators.py\<close>), the scoring engine
  (\<^verbatim>\<open>app/features/engine.py\<close>) and the two ingestion orchestrators
  (\<^verbatim>\<open>app/etl/backfill.py\<close>, \<^verbatim>\<open>app/etl/incremental.py\<close>).

  Conventions of the embedding.
  \<^item> A table is the list of its rows; a nullable column is an \<open>option\<close>.
  \<^item> A \<^verbatim>\<open>datetime\<close> is the number of seconds on the time line (an \<open>int\<close>), so
    \<^verbatim>\<open>(a - b).days\<close> is \<open>(a - b) div 86400\<close> (both round towards minus infinity).
  \<^item> \<^verbatim>\<open>Numeric\<close> columns and Python floats are exact rationals: \<^verbatim>\<open>float(x)\<close> is the
    identity and \<^verbatim>\<open>round(x, 1)\<close> rounds the exact value, ties to even.
  \<^item> An exception is a value \<open>Inl e\<close> of \<open>error + 'a\<close>.
\<close>

subsection \<open>Python values and errors\<close>

datatype error =
    ZeroDivisionError
  | KeyError string
  | ValueError
  | DataError
  | UndefinedTable string
  | NoMatchingConstraint "string list"
  | UpstreamError
  | DatabaseError

definition py_div :: "rat \<Rightarrow> rat \<Rightarrow> error + rat" where
  "py_div a b = (if b = 0 then Inl ZeroDivisionError else Inr (a / b))"

definition round_half_even :: "rat \<Rightarrow> int" where
  "round_half_even x =
     (let f = \<lfloor>x\<rfloor>; d = x - of_int f
      in if d < 1 / 2 then f
         else if 1 / 2 < d then f + 1
         else if even f then f else f + 1)"

definition round1 :: "rat \<Rightarrow> rat" where
  \<comment> \<open>\<^verbatim>\<open>round(x, 1)\<close>\<close>
  "round1 x = of_int (round_half_even (x * 10)) / 10"

definition days :: "int \<Rightarrow> int" where
  \<comment> \<open>\<^verbatim>\<open>timedelta.days\<close> of a difference given in seconds\<close>
  "days delta = delta div 86400"

text \<open>Truthiness of nullable columns: \<^verbatim>\<open>None\<close>, \<^verbatim>\<open>0\<close> and \<^verbatim>\<open>""\<close> are falsy.\<close>

definition truthy_int :: "int option \<Rightarrow> bool" where
  "truthy_int v = (case v of None \<Rightarrow> False | Some n \<Rightarrow> n \<noteq> 0)"

definition truthy_num :: "rat option \<Rightarrow> bool" where
  "truthy_num v = (case v of None \<Rightarrow> False | Some x \<Rightarrow> x \<noteq> 0)"

definition truthy_str :: "string option \<Rightarrow> bool" where
  "truthy_str v = (case v of None \<Rightarrow> False | Some s \<Rightarrow> s \<noteq> [])"

definition or0 :: "rat option \<Rightarrow> rat" where
  \<comment> \<open>\<^verbatim>\<open>x or 0\<close>\<close>
  "or0 v = (case v of None \<Rightarrow> 0 | Some x \<Rightarrow> x)"

subsection \<open>SQL aggregates\<close>

definition non_null :: "'a option list \<Rightarrow> 'a list" where
  "non_null vs = concat (map (\<lambda>v. case v of None \<Rightarrow> [] | Some x \<Rightarrow> [x]) vs)"

definition sql_sum :: "rat option list \<Rightarrow> rat option" where
  \<comment> \<open>\<^verbatim>\<open>SUM\<close> skips NULLs and is NULL when nothing is left\<close>
  "sql_sum vs = (if non_null vs = [] then None else Some (sum_list (non_null vs)))"

definition sql_avg :: "rat option list \<Rightarrow> rat option" where
  "sql_avg vs =
     (if non_null vs = [] then None
      else Some (sum_list (non_null vs) / of_nat (length (non_null vs))))"

definition count_distinct :: "'a option list \<Rightarrow> nat" where
  \<comment> \<open>\<^verbatim>\<open>COUNT(DISTINCT col)\<close>\<close>
  "count_distinct vs = length (remdups (non_null vs))"

definition group_counts :: "'a list \<Rightarrow> ('a \<times> nat) list" where
  \<comment> \<open>\<^verbatim>\<open>GROUP BY\<close> with \<^verbatim>\<open>COUNT\<close>, groups in order of first appearance\<close>
  "group_counts ks = map (\<lambda>k. (k, length (filter (\<lambda>x. x = k) ks))) (rev (remdups (rev ks)))"

fun top_count :: "('a \<times> nat) list \<Rightarrow> ('a \<times> nat) option" where
  \<comment> \<open>\<^verbatim>\<open>ORDER BY cnt DESC LIMIT 1\<close>: the first group of greatest count\<close>
  "top_count [] = None"
| "top_count (g # gs) =
     (case top_count gs of
        None \<Rightarrow> Some g
      | Some h \<Rightarrow> if snd h \<le> snd g then Some g else Some h)"

text \<open>
  \<^verbatim>\<open>ORDER BY sign_date\<close> is ascending with NULLs last (the PostgreSQL default); rows of
  equal date keep their table order.
\<close>

fun date_le :: "int option \<Rightarrow> int option \<Rightarrow> bool" where
  "date_le _ None = True"
| "date_le None (Some _) = False"
| "date_le (Some a) (Some b) = (a \<le> b)"

fun insert_by :: "('a \<Rightarrow> int option) \<Rightarrow> 'a \<Rightarrow> 'a list \<Rightarrow> 'a list" where
  "insert_by k x [] = [x]"
| "insert_by k x (y # ys) =
     (if date_le (k x) (k y) then x # y # ys else y # insert_by k x ys)"

definition order_by :: "('a \<Rightarrow> int option) \<Rightarrow> 'a list \<Rightarrow> 'a list" where
  "order_by k rows = foldr (insert_by k) rows []"

definition first :: "'a list \<Rightarrow> 'a option" where
  \<comment> \<open>\<^verbatim>\<open>result.first()\<close>\<close>
  "first rows = (case rows of [] \<Rightarrow> None | r # _ \<Rightarrow> Some r)"

subsection \<open>The normalized store (\<^verbatim>\<open>app/models/procurement.py\<close>)\<close>

text \<open>Only the columns the indicators and the engine read are kept.\<close>

record trd_buy =
  tb_id :: int
  tb_start_date :: "int option"
  tb_end_date :: "int option"
  tb_last_update_at :: "int option"
  tb_is_deleted :: bool

record lot =
  lot_id :: int
  lot_trd_buy_id :: "int option"
  lot_amount :: "rat option"
  lot_customer_bin :: "string option"
  lot_dumping_flag :: "bool option"
  lot_is_deleted :: bool

record trd_app =
  app_id :: int
  app_buy_id :: "int option"
  app_supplier_biin :: "string option"

record contract =
  ct_id :: int
  ct_trd_buy_id :: "int option"
  ct_customer_bin :: "string option"
  ct_supplier_biin :: "string option"
  ct_contract_sum_wnds :: "rat option"
  ct_sign_date :: "int option"
  ct_plan_exec_date :: "int option"
  ct_parent_id :: "int option"
  ct_root_id :: "int option"
  ct_is_deleted :: bool

record subject =
  sb_id :: int
  sb_bin :: "string option"
  sb_iin :: "string option"
  sb_name_ru :: "string option"
  sb_regdate :: "int option"
  sb_crdate :: "int option"
  sb_phone :: "string option"
  sb_email :: "string option"
  sb_is_deleted :: bool

record rnu =
  rnu_id :: int
  rnu_supplier_biin :: "string option"
  rnu_reason :: "string option"
  rnu_start_date :: "int option"
  rnu_system_id :: "int option"
  rnu_is_active :: "bool option"

record treasury_pay =
  tp_id :: int
  tp_contract_id :: "int option"
  tp_pay_amount :: "rat option"

text \<open>
  JSON payloads (\<^verbatim>\<open>evidence_jsonb\<close>, \<^verbatim>\<open>top_reasons_jsonb\<close>). \<open>EvTime t\<close> stands for
  the text \<^verbatim>\<open>str(t)\<close> of a datetime.
\<close>

datatype ev =
    EvNull
  | EvBool bool
  | EvInt int
  | EvNum rat
  | EvStr string
  | EvTime int
  | EvList "ev list"

record reason =
  rn_code :: string
  rn_weight :: rat
  rn_evidence :: "(string \<times> ev) list"
  rn_description :: string

text \<open>
  \<^verbatim>\<open>risk_flags\<close> and \<^verbatim>\<open>risk_scores\<close> have a serial primary key \<^verbatim>\<open>id\<close>, which the
  database assigns; the rows below carry the other columns. \<^verbatim>\<open>entity_id\<close> holds
  \<^verbatim>\<open>str(lot_id)\<close>, kept as the number it prints.
\<close>

record risk_flag =
  rf_entity_type :: string
  rf_entity_id :: int
  rf_indicator_code :: string
  rf_flag_bool :: bool
  rf_value_numeric :: "rat option"
  rf_evidence_jsonb :: "(string \<times> ev) list"
  rf_computed_at :: int

record risk_score =
  rs_entity_type :: string
  rs_entity_id :: int
  rs_score :: rat
  rs_level :: string
  rs_top_reasons_jsonb :: "reason list"
  rs_computed_at :: int

text \<open>
  The table \<^verbatim>\<open>acts\<close> is read by raw SQL only; neither the models nor the migration
  declare it. \<open>acts = None\<close> is a database without that relation, \<open>Some cs\<close> one
  that has it, \<open>cs\<close> being its \<^verbatim>\<open>contract_id\<close> column.
\<close>

record db =
  trd_buys :: "trd_buy list"
  lots :: "lot list"
  trd_apps :: "trd_app list"
  contracts :: "contract list"
  subjects :: "subject list"
  rnus :: "rnu list"
  treasury_pays :: "treasury_pay list"
  acts :: "int option list option"
  risk_flags :: "risk_flag list"
  risk_scores :: "risk_score list"

subsection \<open>Indicator results\<close>

record result =
  flag :: bool
  val :: "rat option"
  evidence :: "(string \<times> ev) list"

definition not_triggered :: result where
  \<comment> \<open>\<^verbatim>\<open>{"flag": False, "value": None, "evidence": {}}\<close>\<close>
  "not_triggered = \<lparr>flag = False, val = None, evidence = []\<rparr>"

definition zero_result :: result where
  \<comment> \<open>\<^verbatim>\<open>{"flag": False, "value": 0.0, "evidence": {}}\<close>\<close>
  "zero_result = \<lparr>flag = False, val = Some 0, evidence = []\<rparr>"

definition ev_str :: "string option \<Rightarrow> ev" where
  "ev_str v = (case v of None \<Rightarrow> EvNull | Some s \<Rightarrow> EvStr s)"

definition ev_int :: "int option \<Rightarrow> ev" where
  "ev_int v = (case v of None \<Rightarrow> EvNull | Some n \<Rightarrow> EvInt n)"

subsection \<open>The indicator bank (\<^verbatim>\<open>app/features/indicators.py\<close>)\<close>

text \<open>1. SHORT\_DEADLINE\<close>

definition check_short_deadline :: "db \<Rightarrow> int \<Rightarrow> error + result" where
  "check_short_deadline d trd_buy_id =
     (case first (filter (\<lambda>t. tb_id t = trd_buy_id) (trd_buys d)) of
        None \<Rightarrow> Inr not_triggered
      | Some row \<Rightarrow>
          (case tb_start_date row of
             None \<Rightarrow> Inr not_triggered
           | Some start_date \<Rightarrow>
               (case tb_end_date row of
                  None \<Rightarrow> Inr not_triggered
                | Some end_date \<Rightarrow>
                    (let delta_days = days (end_date - start_date)
                     in Inr \<lparr>flag = delta_days < 3,
                             val = Some (of_int delta_days),
                             evidence =
                               [(''start_date'', EvTime start_date),
                                (''end_date'', EvTime end_date),
                                (''deadline_days'', EvInt delta_days),
                                (''threshold'', EvInt 3)]\<rparr>))))"

text \<open>2. FEW\_BIDS\<close>

definition check_few_bids :: "db \<Rightarrow> int \<Rightarrow> error + result" where
  "check_few_bids d trd_buy_id =
     (let bid_count = int (length (filter (\<lambda>a. app_buy_id a = Some trd_buy_id) (trd_apps d)))
      in Inr \<lparr>flag = (0 < bid_count \<and> bid_count \<le> 2),
              val = Some (of_int bid_count),
              evidence = [(''bid_count'', EvInt bid_count), (''threshold'', EvInt 2)]\<rparr>)"

text \<open>3. LOT\_SPLITTING\<close>

definition tender_lots :: "db \<Rightarrow> int \<Rightarrow> lot list" where
  \<comment> \<open>\<^verbatim>\<open>WHERE Lot.trd_buy_id == trd_buy_id AND Lot.is_deleted == False\<close>\<close>
  "tender_lots d trd_buy_id =
     filter (\<lambda>l. lot_trd_buy_id l = Some trd_buy_id \<and> \<not> lot_is_deleted l) (lots d)"

definition check_lot_splitting :: "db \<Rightarrow> int \<Rightarrow> error + result" where
  "check_lot_splitting d trd_buy_id =
     (let rows = tender_lots d trd_buy_id;
          lot_count = int (length rows);
          total_sum = or0 (sql_sum (map lot_amount rows));
          avg_amount = or0 (sql_avg (map lot_amount rows))
      in Inr \<lparr>flag = (5 < lot_count \<and> avg_amount < 5000000 \<and> 10000000 < total_sum),
              val = Some (of_int lot_count),
              evidence =
                [(''lot_count'', EvInt lot_count),
                 (''total_sum'', EvNum total_sum),
                 (''avg_lot_amount'', EvNum avg_amount)]\<rparr>)"

text \<open>4. RECURRING\_WINNER\<close>

definition customer_contracts :: "db \<Rightarrow> string \<Rightarrow> contract list" where
  \<comment> \<open>\<^verbatim>\<open>WHERE Contract.customer_bin == customer_bin AND Contract.is_deleted == False\<close>\<close>
  "customer_contracts d customer_bin =
     filter (\<lambda>c. ct_customer_bin c = Some customer_bin \<and> \<not> ct_is_deleted c) (contracts d)"

definition check_recurring_winner :: "db \<Rightarrow> string \<Rightarrow> string \<Rightarrow> error + result" where
  "check_recurring_winner d customer_bin supplier_biin =
     (let total = int (length (customer_contracts d customer_bin))
      in if total = 0 then Inr zero_result
         else
           (let supplier_count =
                  int (length (filter (\<lambda>c. ct_supplier_biin c = Some supplier_biin)
                                 (customer_contracts d customer_bin)))
            in case py_div (of_int supplier_count) (of_int total) of
                 Inl e \<Rightarrow> Inl e
               | Inr win_rate \<Rightarrow>
                   Inr \<lparr>flag = (7 / 10 < win_rate \<and> 5 \<le> total),
                        val = Some (round1 (win_rate * 100)),
                        evidence =
                          [(''customer_bin'', EvStr customer_bin),
                           (''supplier_biin'', EvStr supplier_biin),
                           (''supplier_contracts'', EvInt supplier_count),
                           (''total_contracts'', EvInt total),
                           (''win_rate_pct'', EvNum (round1 (win_rate * 100))),
                           (''threshold_pct'', EvInt 70)]\<rparr>))"

text \<open>5. SUPPLIER\_CONCENTRATION\<close>

definition supplier_contracts :: "db \<Rightarrow> string \<Rightarrow> contract list" where
  \<comment> \<open>\<^verbatim>\<open>WHERE Contract.supplier_biin == supplier_biin AND Contract.is_deleted == False\<close>\<close>
  "supplier_contracts d supplier_biin =
     filter (\<lambda>c. ct_supplier_biin c = Some supplier_biin \<and> \<not> ct_is_deleted c) (contracts d)"

definition check_supplier_concentration :: "db \<Rightarrow> string \<Rightarrow> error + result" where
  "check_supplier_concentration d supplier_biin =
     (let total = int (length (supplier_contracts d supplier_biin))
      in if total < 5 then Inr zero_result
         else
           (case top_count (group_counts (map ct_customer_bin (supplier_contracts d supplier_biin))) of
              None \<Rightarrow> Inr zero_result
            | Some (top_customer_bin, cnt) \<Rightarrow>
                (case py_div (of_nat cnt) (of_int total) of
                   Inl e \<Rightarrow> Inl e
                 | Inr concentration \<Rightarrow>
                     Inr \<lparr>flag = (8 / 10 < concentration),
                          val = Some (round1 (concentration * 100)),
                          evidence =
                            [(''supplier_biin'', EvStr supplier_biin),
                             (''top_customer_bin'', ev_str top_customer_bin),
                             (''top_customer_contracts'', EvInt (int cnt)),
                             (''total_contracts'', EvInt total),
                             (''concentration_pct'', EvNum (round1 (concentration * 100)))]\<rparr>)))"

text \<open>6. ADDENDUM\_VALUE\_INCREASE\<close>

definition contract_by_id :: "db \<Rightarrow> int \<Rightarrow> contract option" where
  \<comment> \<open>\<^verbatim>\<open>WHERE Contract.id == contract_id\<close>, first row\<close>
  "contract_by_id d contract_id = first (filter (\<lambda>c. ct_id c = contract_id) (contracts d))"

definition check_addendum_value_increase :: "db \<Rightarrow> int \<Rightarrow> error + result" where
  "check_addendum_value_increase d contract_id =
     (case contract_by_id d contract_id of
        None \<Rightarrow> Inr not_triggered
      | Some row \<Rightarrow>
          if \<not> truthy_int (ct_root_id row) then Inr not_triggered
          else
            (case contract_by_id d (the (ct_root_id row)) of
               None \<Rightarrow> Inr not_triggered
             | Some root_row \<Rightarrow>
                 if \<not> truthy_num (ct_contract_sum_wnds root_row) \<or> \<not> truthy_num (ct_contract_sum_wnds row)
                 then Inr not_triggered
                 else
                   (let root_sum = the (ct_contract_sum_wnds root_row);
                        row_sum = the (ct_contract_sum_wnds row)
                    in case py_div (row_sum - root_sum) root_sum of
                         Inl e \<Rightarrow> Inl e
                       | Inr increase_pct \<Rightarrow>
                           Inr \<lparr>flag = (2 / 10 < increase_pct),
                                val = Some (round1 (increase_pct * 100)),
                                evidence =
                                  [(''root_contract_id'', ev_int (ct_root_id row)),
                                   (''original_sum'', EvNum root_sum),
                                   (''current_sum'', EvNum row_sum),
                                   (''increase_pct'', EvNum (round1 (increase_pct * 100))),
                                   (''threshold_pct'', EvInt 20)]\<rparr>)))"

text \<open>7. WIN\_MIN\_THEN\_ADDENDUM\<close>

definition check_win_min_then_addendum :: "db \<Rightarrow> int \<Rightarrow> error + result" where
  "check_win_min_then_addendum d contract_id =
     (case contract_by_id d contract_id of
        None \<Rightarrow> Inr not_triggered
      | Some contract \<Rightarrow>
          if \<not> truthy_int (ct_root_id contract) then Inr not_triggered
          else
            (case first (order_by ct_sign_date
                           (filter (\<lambda>c. ct_parent_id c = Some contract_id) (contracts d))) of
               None \<Rightarrow> Inr not_triggered
             | Some addendum \<Rightarrow>
                 (case ct_sign_date addendum of
                    None \<Rightarrow> Inr not_triggered
                  | Some addendum_sign \<Rightarrow>
                      (case ct_sign_date contract of
                         None \<Rightarrow> Inr not_triggered
                       | Some contract_sign \<Rightarrow>
                           (let days_to_addendum = days (addendum_sign - contract_sign)
                            in Inr \<lparr>flag = (days_to_addendum \<le> 30),
                                    val = Some (of_int days_to_addendum),
                                    evidence =
                                      [(''contract_sign_date'', EvTime contract_sign),
                                       (''addendum_sign_date'', EvTime addendum_sign),
                                       (''days_to_addendum'', EvInt days_to_addendum),
                                       (''addendum_sum'',
                                          EvNum (or0 (ct_contract_sum_wnds addendum)))]\<rparr>)))))"

text \<open>8. WEIRD\_EXECUTION\_TIME\<close>

definition check_weird_execution_time :: "db \<Rightarrow> int \<Rightarrow> error + result" where
  "check_weird_execution_time d contract_id =
     (case contract_by_id d contract_id of
        None \<Rightarrow> Inr not_triggered
      | Some row \<Rightarrow>
          (case ct_sign_date row of
             None \<Rightarrow> Inr not_triggered
           | Some sign_date \<Rightarrow>
               (case ct_plan_exec_date row of
                  None \<Rightarrow> Inr not_triggered
                | Some plan_exec_date \<Rightarrow>
                    (let exec_days = days (plan_exec_date - sign_date)
                     in Inr \<lparr>flag = (exec_days < 7 \<or> 730 < exec_days),
                             val = Some (of_int exec_days),
                             evidence =
                               [(''sign_date'', EvTime sign_date),
                                (''plan_exec_date'', EvTime plan_exec_date),
                                (''execution_days'', EvInt exec_days),
                                (''anomaly'',
                                   EvStr (if exec_days < 7 then ''too_short'' else ''too_long''))]\<rparr>))))"

text \<open>9. RNU\_FLAG\<close>

definition str_of_date :: "int option \<Rightarrow> ev" where
  \<comment> \<open>\<^verbatim>\<open>str(d)\<close> of a nullable datetime: \<^verbatim>\<open>str(None)\<close> is the text \<^verbatim>\<open>None\<close>\<close>
  "str_of_date v = (case v of None \<Rightarrow> EvStr ''None'' | Some t \<Rightarrow> EvTime t)"

definition check_rnu_flag :: "db \<Rightarrow> string \<Rightarrow> error + result" where
  "check_rnu_flag d supplier_biin =
     (case first (filter (\<lambda>r. rnu_supplier_biin r = Some supplier_biin \<and> rnu_is_active r = Some True)
                    (rnus d)) of
        None \<Rightarrow> Inr \<lparr>flag = False, val = Some 0, evidence = []\<rparr>
      | Some r \<Rightarrow>
          Inr \<lparr>flag = True,
               val = Some 1,
               evidence =
                 [(''rnu_id'', EvInt (rnu_id r)),
                  (''reason'', ev_str (rnu_reason r)),
                  (''start_date'', str_of_date (rnu_start_date r)),
                  (''system_id'', ev_int (rnu_system_id r))]\<rparr>)"

text \<open>10. DUMPING\_FLAG\<close>

definition check_dumping_flag :: "db \<Rightarrow> int \<Rightarrow> error + result" where
  "check_dumping_flag d lot_id' =
     (case first (filter (\<lambda>l. lot_id l = lot_id') (lots d)) of
        None \<Rightarrow> Inr not_triggered
      | Some row \<Rightarrow>
          Inr \<lparr>flag = (lot_dumping_flag row = Some True),
               val = Some (if lot_dumping_flag row = Some True then 1 else 0),
               evidence =
                 [(''lot_id'', EvInt lot_id'),
                  (''dumping_flag'',
                     (case lot_dumping_flag row of None \<Rightarrow> EvNull | Some b \<Rightarrow> EvBool b)),
                  (''lot_amount'', EvNum (or0 (lot_amount row)))]\<rparr>)"

text \<open>11. NEW\_COMPANY\_BIG\_CONTRACT; \<open>now\<close> is \<^verbatim>\<open>datetime.utcnow()\<close>.\<close>

definition check_new_company_big_contract :: "int \<Rightarrow> db \<Rightarrow> string \<Rightarrow> rat \<Rightarrow> error + result" where
  "check_new_company_big_contract now d supplier_biin contract_sum =
     (case first (filter (\<lambda>s. sb_bin s = Some supplier_biin \<or> sb_iin s = Some supplier_biin)
                    (subjects d)) of
        None \<Rightarrow> Inr not_triggered
      | Some row \<Rightarrow>
          (case (case sb_regdate row of None \<Rightarrow> sb_crdate row | Some r \<Rightarrow> Some r) of
             None \<Rightarrow> Inr not_triggered
           | Some reg_date \<Rightarrow>
               (let company_age_days = days (now - reg_date)
                in Inr \<lparr>flag = (company_age_days < 365 \<and> 10000000 < contract_sum),
                        val = Some (of_int company_age_days),
                        evidence =
                          [(''supplier_biin'', EvStr supplier_biin),
                           (''company_name'', ev_str (sb_name_ru row)),
                           (''regdate'', EvTime reg_date),
                           (''company_age_days'', EvInt company_age_days),
                           (''contract_sum'', EvNum contract_sum),
                           (''threshold_sum'', EvInt 10000000)]\<rparr>)))"

text \<open>12. PAYMENT\_WITHOUT\_ACT\<close>

definition check_payment_without_act :: "db \<Rightarrow> int \<Rightarrow> error + result" where
  "check_payment_without_act d contract_id =
     (let pays = filter (\<lambda>p. tp_contract_id p = Some contract_id) (treasury_pays d);
          pay_count = int (length pays);
          pay_sum = or0 (sql_sum (map tp_pay_amount pays))
      in if pay_count = 0 then Inr zero_result
         else
           (case acts d of
              None \<Rightarrow> Inl (UndefinedTable ''acts'')
            | Some cs \<Rightarrow>
                (let act_count = int (length (filter (\<lambda>c. c = Some contract_id) cs))
                 in Inr \<lparr>flag = (0 < pay_count \<and> act_count = 0),
                         val = Some pay_sum,
                         evidence =
                           [(''contract_id'', EvInt contract_id),
                            (''payment_count'', EvInt pay_count),
                            (''total_paid'', EvNum pay_sum),
                            (''act_count'', EvInt act_count)]\<rparr>)))"

text \<open>13. HIGH\_WIN\_RATE\_FEW\_BIDS\<close>

definition check_high_win_rate_few_bids :: "db \<Rightarrow> string \<Rightarrow> error + result" where
  "check_high_win_rate_few_bids d supplier_biin =
     (let supplier_apps = filter (\<lambda>a. app_supplier_biin a = Some supplier_biin) (trd_apps d);
          total_participated = int (count_distinct (map app_buy_id supplier_apps))
      in if total_participated < 5 then Inr zero_result
         else
           (let total_won =
                  int (count_distinct (map ct_trd_buy_id (supplier_contracts d supplier_biin)));
                buy_ids = non_null (map app_buy_id supplier_apps);
                bids = filter (\<lambda>a. case app_buy_id a of None \<Rightarrow> False | Some b \<Rightarrow> b \<in> set buy_ids)
                         (trd_apps d);
                bid_counts = group_counts (map app_buy_id bids);
                avg_bids = or0 (sql_avg (map (\<lambda>g. Some (of_nat (snd g))) bid_counts))
            in case (if 0 < total_participated
                     then py_div (of_int total_won) (of_int total_participated)
                     else Inr 0) of
                 Inl e \<Rightarrow> Inl e
               | Inr win_rate \<Rightarrow>
                   Inr \<lparr>flag = (9 / 10 < win_rate \<and> avg_bids < 3),
                        val = Some (round1 (win_rate * 100)),
                        evidence =
                          [(''supplier_biin'', EvStr supplier_biin),
                           (''total_participated'', EvInt total_participated),
                           (''total_won'', EvInt total_won),
                           (''win_rate_pct'', EvNum (round1 (win_rate * 100))),
                           (''avg_bids_per_tender'', EvNum (round1 avg_bids))]\<rparr>))"

text \<open>14. CAROUSEL\_PATTERN\<close>

fun rotation_loop :: "'a list \<Rightarrow> nat \<Rightarrow> 'a set \<Rightarrow> nat" where
  \<comment> \<open>the \<^verbatim>\<open>for s in suppliers\<close> loop, with its \<^verbatim>\<open>rotations\<close> and \<^verbatim>\<open>seen\<close>\<close>
  "rotation_loop [] rotations seen = rotations"
| "rotation_loop (s # ss) rotations seen =
     (if s \<in> seen then rotation_loop ss (rotations + 1) {s}
      else rotation_loop ss rotations (insert s seen))"

definition unique_in_order :: "'a list \<Rightarrow> 'a list" where
  \<comment> \<open>\<^verbatim>\<open>list(dict.fromkeys(xs))\<close>: first occurrences, in order\<close>
  "unique_in_order xs = rev (remdups (rev xs))"

definition carousel_sample :: "db \<Rightarrow> string \<Rightarrow> contract list" where
  \<comment> \<open>\<^verbatim>\<open>.order_by(Contract.sign_date).limit(50)\<close>\<close>
  "carousel_sample d customer_bin = take 50 (order_by ct_sign_date (customer_contracts d customer_bin))"

definition check_carousel_pattern :: "db \<Rightarrow> string \<Rightarrow> error + result" where
  "check_carousel_pattern d customer_bin =
     (let rows = carousel_sample d customer_bin
      in if length rows < 6 then Inr zero_result
         else
           (let suppliers = map ct_supplier_biin rows;
                unique_suppliers = unique_in_order suppliers
            in if length unique_suppliers < 2 then Inr zero_result
               else
                 (let rotations = rotation_loop suppliers 0 {}
                  in Inr \<lparr>flag = (2 \<le> rotations \<and> 2 \<le> length unique_suppliers),
                          val = Some (of_nat rotations),
                          evidence =
                            [(''customer_bin'', EvStr customer_bin),
                             (''unique_winners'', EvInt (int (length unique_suppliers))),
                             (''rotation_count'', EvInt (int rotations)),
                             (''winner_sequence'', EvList (map ev_str (take 10 suppliers)))]\<rparr>)))"

text \<open>15. LAST\_MINUTE\_CHANGES\<close>

definition check_last_minute_changes :: "db \<Rightarrow> int \<Rightarrow> error + result" where
  "check_last_minute_changes d trd_buy_id =
     (case first (filter (\<lambda>t. tb_id t = trd_buy_id) (trd_buys d)) of
        None \<Rightarrow> Inr not_triggered
      | Some row \<Rightarrow>
          (case tb_end_date row of
             None \<Rightarrow> Inr not_triggered
           | Some end_date \<Rightarrow>
               (case tb_last_update_at row of
                  None \<Rightarrow> Inr not_triggered
                | Some last_update \<Rightarrow>
                    (let hours_before_deadline = (of_int (end_date - last_update) :: rat) / 3600
                     in Inr \<lparr>flag = (0 < hours_before_deadline \<and> hours_before_deadline < 24),
                             val = Some (round1 hours_before_deadline),
                             evidence =
                               [(''end_date'', EvTime end_date),
                                (''last_update'', EvTime last_update),
                                (''hours_before_deadline'',
                                   EvNum (round1 hours_before_deadline))]\<rparr>))))"

text \<open>16. COMMON\_REQUISITES\<close>

definition shared :: "'a list \<Rightarrow> 'a list" where
  \<comment> \<open>\<^verbatim>\<open>[p for p in set(ps) if ps.count(p) > 1]\<close>\<close>
  "shared ps = filter (\<lambda>p. 1 < length (filter (\<lambda>q. q = p) ps)) (remdups ps)"

definition check_common_requisites :: "db \<Rightarrow> int \<Rightarrow> error + result" where
  "check_common_requisites d trd_buy_id =
     (let biins = filter (\<lambda>b. b \<noteq> [])
                    (remdups (non_null (map app_supplier_biin
                       (filter (\<lambda>a. app_buy_id a = Some trd_buy_id) (trd_apps d)))))
      in if length biins < 2 then Inr zero_result
         else
           (let subjects' =
                  filter (\<lambda>s. (case sb_bin s of None \<Rightarrow> False | Some b \<Rightarrow> b \<in> set biins)
                             \<or> (case sb_iin s of None \<Rightarrow> False | Some b \<Rightarrow> b \<in> set biins))
                    (subjects d);
                phones = filter (\<lambda>p. p \<noteq> []) (non_null (map sb_phone subjects'));
                emails = filter (\<lambda>e. e \<noteq> []) (non_null (map sb_email subjects'));
                common_phones = shared phones;
                common_emails = shared emails
            in Inr \<lparr>flag = (common_phones \<noteq> [] \<or> common_emails \<noteq> []),
                    val = Some (of_nat (length common_phones + length common_emails)),
                    evidence =
                      [(''bidder_count'', EvInt (int (length biins))),
                       (''common_phones'', EvList (map EvStr common_phones)),
                       (''common_emails'', EvList (map EvStr common_emails))]\<rparr>))"

subsection \<open>The scoring engine (\<^verbatim>\<open>app/features/engine.py\<close>)\<close>

text \<open>
  \<^verbatim>\<open>weights.yaml\<close> is read once at import time and is not part of the sources; its
  content is the parameter \<open>cfg\<close>: per indicator code a weight and a description, and
  the two thresholds.
\<close>

record config =
  indicators :: "(string \<times> rat \<times> string) list"
  low_max :: rat
  medium_max :: rat

definition WEIGHTS :: "config \<Rightarrow> (string \<times> rat) list" where
  "WEIGHTS cfg = map (\<lambda>(k, w, descr). (k, w)) (indicators cfg)"

definition MAX_SCORE :: "config \<Rightarrow> rat" where
  "MAX_SCORE cfg = sum_list (map snd (WEIGHTS cfg))"

definition weight_of :: "config \<Rightarrow> string \<Rightarrow> rat" where
  \<comment> \<open>\<^verbatim>\<open>WEIGHTS.get(code, 0)\<close>\<close>
  "weight_of cfg code = (case map_of (WEIGHTS cfg) code of None \<Rightarrow> 0 | Some w \<Rightarrow> w)"

definition description_of :: "config \<Rightarrow> string \<Rightarrow> string" where
  "description_of cfg code =
     (case map_of (indicators cfg) code of None \<Rightarrow> [] | Some (w, descr) \<Rightarrow> descr)"

definition normalize_score :: "config \<Rightarrow> rat \<Rightarrow> error + rat" where
  "normalize_score cfg raw =
     (case py_div raw (MAX_SCORE cfg) of
        Inl e \<Rightarrow> Inl e
      | Inr q \<Rightarrow> Inr (round1 (min 100 (q * 100))))"

definition get_level :: "config \<Rightarrow> rat \<Rightarrow> string" where
  "get_level cfg score =
     (if score \<le> low_max cfg then ''LOW''
      else if score \<le> medium_max cfg then ''MEDIUM''
      else ''HIGH'')"

fun run_checks :: "(string \<times> (error + result)) list \<Rightarrow> error + (string \<times> result) list" where
  \<comment> \<open>the indicators run in order; the first exception ends the computation\<close>
  "run_checks [] = Inr []"
| "run_checks ((code, r) # cs) =
     (case r of
        Inl e \<Rightarrow> Inl e
      | Inr res \<Rightarrow> (case run_checks cs of Inl e \<Rightarrow> Inl e | Inr fs \<Rightarrow> Inr ((code, res) # fs)))"

definition lot_checks :: "int \<Rightarrow> db \<Rightarrow> lot \<Rightarrow> contract option \<Rightarrow> (string \<times> (error + result)) list" where
  "lot_checks now d l contract =
     [(''DUMPING_FLAG'', check_dumping_flag d (lot_id l))]
     @ (if truthy_int (lot_trd_buy_id l) then
          (let t = the (lot_trd_buy_id l)
           in [(''SHORT_DEADLINE'', check_short_deadline d t),
               (''FEW_BIDS'', check_few_bids d t),
               (''LOT_SPLITTING'', check_lot_splitting d t),
               (''LAST_MINUTE_CHANGES'', check_last_minute_changes d t),
               (''COMMON_REQUISITES'', check_common_requisites d t)])
        else [])
     @ (case contract of
          None \<Rightarrow> []
        | Some c \<Rightarrow>
            (if truthy_str (lot_customer_bin l) \<and> truthy_str (ct_supplier_biin c) then
               [(''RECURRING_WINNER'',
                   check_recurring_winner d (the (lot_customer_bin l)) (the (ct_supplier_biin c))),
                (''CAROUSEL_PATTERN'', check_carousel_pattern d (the (lot_customer_bin l)))]
             else [])
            @ (if truthy_str (ct_supplier_biin c) then
                 (let s = the (ct_supplier_biin c)
                  in [(''SUPPLIER_CONCENTRATION'', check_supplier_concentration d s),
                      (''RNU_FLAG'', check_rnu_flag d s),
                      (''HIGH_WIN_RATE_FEW_BIDS'', check_high_win_rate_few_bids d s),
                      (''NEW_COMPANY_BIG_CONTRACT'',
                         check_new_company_big_contract now d s (or0 (ct_contract_sum_wnds c)))])
               else [])
            @ [(''ADDENDUM_VALUE_INCREASE'', check_addendum_value_increase d (ct_id c)),
               (''WIN_MIN_THEN_ADDENDUM'', check_win_min_then_addendum d (ct_id c)),
               (''WEIRD_EXECUTION_TIME'', check_weird_execution_time d (ct_id c)),
               (''PAYMENT_WITHOUT_ACT'', check_payment_without_act d (ct_id c))])"

definition raw_score_of :: "config \<Rightarrow> (string \<times> result) list \<Rightarrow> rat" where
  "raw_score_of cfg flags =
     sum_list (map (\<lambda>(code, r). weight_of cfg code * (if flag r then 1 else 0)) flags)"

fun insert_reason :: "reason \<Rightarrow> reason list \<Rightarrow> reason list" where
  "insert_reason x [] = [x]"
| "insert_reason x (y # ys) =
     (if rn_weight y \<le> rn_weight x then x # y # ys else y # insert_reason x ys)"

definition sorted_by_weight_desc :: "reason list \<Rightarrow> reason list" where
  \<comment> \<open>\<^verbatim>\<open>sorted(..., key=weight, reverse=True)\<close>, stable\<close>
  "sorted_by_weight_desc rs = foldr insert_reason rs []"

definition top_reasons_of :: "config \<Rightarrow> (string \<times> result) list \<Rightarrow> reason list" where
  "top_reasons_of cfg flags =
     take 3 (sorted_by_weight_desc
               (map (\<lambda>(code, r). \<lparr>rn_code = code, rn_weight = weight_of cfg code,
                                   rn_evidence = evidence r,
                                   rn_description = description_of cfg code\<rparr>)
                    (filter (\<lambda>(code, r). flag r) flags)))"

record assessment =
  as_flags :: "(string \<times> result) list"
  as_raw_score :: rat
  as_score :: rat
  as_level :: string
  as_top_reasons :: "reason list"

definition assess_lot :: "config \<Rightarrow> int \<Rightarrow> db \<Rightarrow> int \<Rightarrow> error + assessment option" where
  \<comment> \<open>\<^verbatim>\<open>compute_lot_score\<close> up to the persisting statements; \<open>None\<close> is the \<^verbatim>\<open>return {}\<close>\<close>
  "assess_lot cfg now d lot_id' =
     (case first (filter (\<lambda>l. lot_id l = lot_id') (lots d)) of
        None \<Rightarrow> Inr None
      | Some l \<Rightarrow>
          (let contract = first (filter (\<lambda>c. ct_trd_buy_id c = lot_trd_buy_id l \<and> \<not> ct_is_deleted c)
                                   (contracts d))
           in case run_checks (lot_checks now d l contract) of
                Inl e \<Rightarrow> Inl e
              | Inr flags \<Rightarrow>
                  (case normalize_score cfg (raw_score_of cfg flags) of
                     Inl e \<Rightarrow> Inl e
                   | Inr score \<Rightarrow>
                       Inr (Some \<lparr>as_flags = flags,
                                  as_raw_score = raw_score_of cfg flags,
                                  as_score = score,
                                  as_level = get_level cfg score,
                                  as_top_reasons = top_reasons_of cfg flags\<rparr>))))"

text \<open>
  Persisting. \<^verbatim>\<open>INSERT ... ON CONFLICT\<close> is PostgreSQL's: without a conflict target,
  \<^verbatim>\<open>DO NOTHING\<close> skips a row that violates some unique index; with the target
  \<^verbatim>\<open>index_elements\<close>, the statement needs a unique index on exactly these columns and is
  rejected when the table has none. The unique indexes of the two tables, from the
  model classes and the migration: the primary key \<^verbatim>\<open>id\<close> only
  (\<^verbatim>\<open>ix_risk_flags_entity\<close>, \<^verbatim>\<open>ix_risk_flags_indicator\<close>, \<^verbatim>\<open>ix_risk_scores_entity\<close> and
  \<^verbatim>\<open>ix_risk_scores_score\<close> are plain indexes). A fresh serial \<^verbatim>\<open>id\<close> never
  conflicts, so every flag row is appended.
\<close>

definition risk_scores_unique :: "string list list" where
  "risk_scores_unique = [[''id'']]"

definition conflict_target_ok :: "string list list \<Rightarrow> string list \<Rightarrow> bool" where
  "conflict_target_ok uniq cols = (\<exists>u \<in> set uniq. set u = set cols)"

definition entity_key :: "risk_score \<Rightarrow> string \<times> int" where
  "entity_key r = (rs_entity_type r, rs_entity_id r)"

definition same_entity :: "risk_score \<Rightarrow> risk_score \<Rightarrow> bool" where
  "same_entity r r' = (rs_entity_type r = rs_entity_type r' \<and> rs_entity_id r = rs_entity_id r')"

definition upsert_score :: "string list list \<Rightarrow> risk_score \<Rightarrow> risk_score list \<Rightarrow> error + risk_score list" where
  \<comment> \<open>\<^verbatim>\<open>on_conflict_do_update(index_elements=["entity_type", "entity_id"], set_={...})\<close>\<close>
  "upsert_score uniq row tbl =
     (if \<not> conflict_target_ok uniq [''entity_type'', ''entity_id'']
      then Inl (NoMatchingConstraint [''entity_type'', ''entity_id''])
      else if \<exists>r \<in> set tbl. same_entity r row
      then Inr (map (\<lambda>r. if same_entity r row
                          then r\<lparr>rs_score := rs_score row, rs_level := rs_level row,
                                 rs_top_reasons_jsonb := rs_top_reasons_jsonb row,
                                 rs_computed_at := rs_computed_at row\<rparr>
                          else r) tbl)
      else Inr (tbl @ [row]))"

definition flag_rows_of :: "int \<Rightarrow> int \<Rightarrow> (string \<times> result) list \<Rightarrow> risk_flag list" where
  "flag_rows_of now lot_id' flags =
     map (\<lambda>(code, r). \<lparr>rf_entity_type = ''lot'', rf_entity_id = lot_id',
                         rf_indicator_code = code, rf_flag_bool = flag r,
                         rf_value_numeric = val r, rf_evidence_jsonb = evidence r,
                         rf_computed_at = now\<rparr>) flags"

definition score_row_of :: "int \<Rightarrow> int \<Rightarrow> assessment \<Rightarrow> risk_score" where
  "score_row_of now lot_id' a =
     \<lparr>rs_entity_type = ''lot'', rs_entity_id = lot_id', rs_score = as_score a,
      rs_level = as_level a, rs_top_reasons_jsonb = as_top_reasons a, rs_computed_at = now\<rparr>"

definition persist :: "string list list \<Rightarrow> int \<Rightarrow> int \<Rightarrow> assessment \<Rightarrow> db \<Rightarrow> error + db" where
  \<comment> \<open>the two statements and the commit; an exception leaves the transaction uncommitted\<close>
  "persist uniq now lot_id' a d =
     (let d1 = d\<lparr>risk_flags := risk_flags d @ flag_rows_of now lot_id' (as_flags a)\<rparr>
      in case upsert_score uniq (score_row_of now lot_id' a) (risk_scores d1) of
           Inl e \<Rightarrow> Inl e
         | Inr tbl \<Rightarrow> Inr (d1\<lparr>risk_scores := tbl\<rparr>))"

record lot_summary =
  ls_lot_id :: int
  ls_score :: rat
  ls_level :: string
  ls_flags_triggered :: nat

definition compute_lot_score :: "config \<Rightarrow> int \<Rightarrow> db \<Rightarrow> int \<Rightarrow> error + (db \<times> lot_summary option)" where
  "compute_lot_score cfg now d lot_id' =
     (case assess_lot cfg now d lot_id' of
        Inl e \<Rightarrow> Inl e
      | Inr None \<Rightarrow> Inr (d, None)
      | Inr (Some a) \<Rightarrow>
          (case persist risk_scores_unique now lot_id' a d of
             Inl e \<Rightarrow> Inl e
           | Inr d' \<Rightarrow>
               Inr (d', Some \<lparr>ls_lot_id = lot_id', ls_score = as_score a, ls_level = as_level a,
                              ls_flags_triggered = length (as_top_reasons a)\<rparr>)))"

record run_summary =
  lots_processed :: nat
  errors :: nat

fun run_lots :: "config \<Rightarrow> int \<Rightarrow> int list \<Rightarrow> db \<times> run_summary \<Rightarrow> db \<times> run_summary" where
  \<comment> \<open>the \<^verbatim>\<open>for lot_id in lot_ids\<close> loop of \<^verbatim>\<open>FeatureEngine.run\<close>\<close>
  "run_lots cfg now [] st = st"
| "run_lots cfg now (i # ids) (d, s) =
     (case compute_lot_score cfg now d i of
        Inl e \<Rightarrow> run_lots cfg now ids (d, s\<lparr>errors := errors s + 1\<rparr>)
      | Inr (d', r) \<Rightarrow> run_lots cfg now ids (d', s\<lparr>lots_processed := lots_processed s + 1\<rparr>))"

definition run :: "config \<Rightarrow> int \<Rightarrow> int list \<Rightarrow> db \<Rightarrow> db \<times> run_summary" where
  "run cfg now entity_ids d =
     (let lot_ids = (if entity_ids \<noteq> [] then entity_ids
                     else take 10000 (map lot_id (filter (\<lambda>l. \<not> lot_is_deleted l) (lots d))))
      in run_lots cfg now lot_ids (d, \<lparr>lots_processed = 0, errors = 0\<rparr>))"

subsection \<open>Ingestion: upstream payloads and rows (\<^verbatim>\<open>app/etl\<close>)\<close>

text \<open>
  The orchestrators handle rows as dictionaries from column names to values, and so does
  the model: an upstream item and a table row are both maps from names to JSON-like
  values, a table maps the primary key to its row, and the store maps a table name to
  its table. \<open>JTime t\<close> is a \<^verbatim>\<open>datetime\<close>. Column types and lengths are not checked.
\<close>

datatype jval = JNull | JBool bool | JInt int | JNum rat | JStr string | JTime int

type_synonym item = "string \<rightharpoonup> jval"
type_synonym row = "string \<rightharpoonup> jval"
type_synonym table = "int \<rightharpoonup> row"

fun truthy :: "jval \<Rightarrow> bool" where
  "truthy JNull = False"
| "truthy (JBool b) = b"
| "truthy (JInt n) = (n \<noteq> 0)"
| "truthy (JNum x) = (x \<noteq> 0)"
| "truthy (JStr s) = (s \<noteq> [])"
| "truthy (JTime t) = True"

definition get :: "item \<Rightarrow> string \<Rightarrow> jval" where
  \<comment> \<open>\<^verbatim>\<open>item.get(k)\<close>\<close>
  "get it k = (case it k of None \<Rightarrow> JNull | Some v \<Rightarrow> v)"

definition get_default :: "item \<Rightarrow> string \<Rightarrow> jval \<Rightarrow> jval" where
  \<comment> \<open>\<^verbatim>\<open>item.get(k, default)\<close>\<close>
  "get_default it k dflt = (case it k of None \<Rightarrow> dflt | Some v \<Rightarrow> v)"

definition py_or :: "jval \<Rightarrow> jval \<Rightarrow> jval" where
  \<comment> \<open>\<^verbatim>\<open>a or b\<close>\<close>
  "py_or a b = (if truthy a then a else b)"

text \<open>
  The Python built-ins that read a value's text are parameters of the model:
  \<^verbatim>\<open>datetime.fromisoformat\<close>, \<^verbatim>\<open>float\<close>, \<^verbatim>\<open>int\<close> (each \<open>None\<close> where Python raises)
  and \<^verbatim>\<open>str\<close>.
\<close>

record py =
  fromisoformat :: "string \<Rightarrow> int option"
  py_float :: "jval \<Rightarrow> rat option"
  py_int :: "jval \<Rightarrow> int option"
  py_str :: "jval \<Rightarrow> string"

definition parse_dt :: "py \<Rightarrow> jval \<Rightarrow> int option" where
  \<comment> \<open>\<^verbatim>\<open>_parse_dt\<close>\<close>
  "parse_dt p v =
     (if \<not> truthy v then None
      else case v of
             JTime t \<Rightarrow> Some t
           | _ \<Rightarrow> fromisoformat p
                    (takeWhile (\<lambda>c. c \<noteq> CHR ''.'')
                       (map (\<lambda>c. if c = CHR '' '' then CHR ''T'' else c) (py_str p v))))"

definition safe_decimal :: "py \<Rightarrow> jval \<Rightarrow> rat option" where
  \<comment> \<open>\<^verbatim>\<open>_safe_decimal\<close>\<close>
  "safe_decimal p v = (case v of JNull \<Rightarrow> None | _ \<Rightarrow> py_float p v)"

definition dt :: "py \<Rightarrow> jval \<Rightarrow> jval" where
  "dt p v = (case parse_dt p v of None \<Rightarrow> JNull | Some t \<Rightarrow> JTime t)"

definition dec :: "py \<Rightarrow> jval \<Rightarrow> jval" where
  "dec p v = (case safe_decimal p v of None \<Rightarrow> JNull | Some x \<Rightarrow> JNum x)"

record cursor_row =
  cursor_value :: string
  updated_at :: int

record etl_run =
  run_type :: string
  started_at :: int
  finished_at :: "int option"
  status :: string

record etl_db =
  tables :: "string \<Rightarrow> table"
  etl_cursors :: "string \<rightharpoonup> cursor_row"
  etl_runs :: "etl_run list"

definition upsert_row :: "string list \<Rightarrow> int \<times> row \<Rightarrow> table \<Rightarrow> table" where
  \<comment> \<open>\<^verbatim>\<open>INSERT ... ON CONFLICT (id) DO UPDATE SET c = excluded.c\<close> for \<open>c\<close> in \<open>cols\<close>\<close>
  "upsert_row cols kr tbl =
     (case tbl (fst kr) of
        None \<Rightarrow> tbl(fst kr \<mapsto> snd kr)
      | Some old \<Rightarrow> tbl(fst kr \<mapsto> (\<lambda>c. if c \<in> set cols then snd kr c else old c)))"

definition upsert_rows :: "string list \<Rightarrow> (int \<times> row) list \<Rightarrow> table \<Rightarrow> table" where
  "upsert_rows cols rows tbl = fold (upsert_row cols) rows tbl"

definition execute_upsert :: "string \<Rightarrow> string list \<Rightarrow> (int \<times> row) list \<Rightarrow> etl_db \<Rightarrow> etl_db" where
  "execute_upsert tname cols rows d =
     d\<lparr>tables := (tables d)(tname := upsert_rows cols rows (tables d tname))\<rparr>"

definition primary_key :: "string \<Rightarrow> item \<Rightarrow> error + int" where
  \<comment> \<open>\<^verbatim>\<open>item["id"]\<close> as the value of the \<^verbatim>\<open>BigInteger\<close> key column\<close>
  "primary_key k it =
     (case it k of
        None \<Rightarrow> Inl (KeyError k)
      | Some v \<Rightarrow> (case v of JInt n \<Rightarrow> Inr n | _ \<Rightarrow> Inl DataError))"

subsection \<open>Incremental sync (\<^verbatim>\<open>app/etl/incremental.py\<close>)\<close>

definition ENTITY_ENDPOINT_MAP :: "jval \<Rightarrow> string option" where
  "ENTITY_ENDPOINT_MAP entity_type =
     map_of [(JStr ''TrdBuy'', ''/v3/trd-buy''),
             (JStr ''Lots'', ''/v3/lots''),
             (JStr ''TrdApp'', ''/v3/trd-app''),
             (JStr ''Contract'', ''/v3/contract''),
             (JStr ''Subject'', ''/v3/subject/biin''),
             (JStr ''Rnu'', ''/v3/rnu'')] entity_type"

definition model_map :: "jval \<Rightarrow> string option" where
  \<comment> \<open>the \<^verbatim>\<open>model_map\<close> of \<^verbatim>\<open>_soft_delete\<close>, each model by its table name\<close>
  "model_map entity_type =
     map_of [(JStr ''TrdBuy'', ''trd_buy''),
             (JStr ''Lots'', ''lots''),
             (JStr ''Contract'', ''contract''),
             (JStr ''Subject'', ''subject'')] entity_type"

definition incr_trd_buy_cols :: "string list" where
  "incr_trd_buy_cols = [''ref_buy_status_id'', ''total_sum'', ''last_update_at'']"

definition incr_lot_cols :: "string list" where
  "incr_lot_cols = [''amount'', ''ref_lot_status_id'', ''dumping_flag'', ''last_update_at'']"

definition incr_contract_cols :: "string list" where
  "incr_contract_cols =
     [''contract_sum_wnds'', ''fakt_sum'', ''fakt_exec_date'', ''ref_contract_status_id'',
      ''last_update_at'']"

definition incr_subject_cols :: "string list" where
  "incr_subject_cols = [''name_ru'', ''regdate'', ''mark_small_employer'', ''last_update_at'']"

definition incr_trd_buy_row :: "py \<Rightarrow> int \<Rightarrow> item \<Rightarrow> int \<Rightarrow> row" where
  "incr_trd_buy_row p now it k =
     map_of [(''id'', JInt k),
             (''number_anno'', get it ''number_anno''),
             (''name_ru'', get it ''name_ru''),
             (''name_kz'', get it ''name_kz''),
             (''ref_trade_methods_id'', get it ''ref_trade_methods_id''),
             (''publish_date'', dt p (get it ''publish_date'')),
             (''start_date'', dt p (get it ''start_date'')),
             (''end_date'', dt p (get it ''end_date'')),
             (''total_sum'', dec p (get it ''total_sum'')),
             (''ref_buy_status_id'', get it ''ref_buy_status_id''),
             (''org_bin'', get it ''org_bin''),
             (''system_id'', get it ''system_id''),
             (''last_update_at'', JTime now),
             (''is_deleted'', JBool False)]"

definition incr_lot_row :: "py \<Rightarrow> int \<Rightarrow> item \<Rightarrow> int \<Rightarrow> row" where
  "incr_lot_row p now it k =
     map_of [(''id'', JInt k),
             (''trd_buy_id'', py_or (get it ''trd_buy_id'') (get it ''buy_id'')),
             (''name_ru'', get it ''name_ru''),
             (''amount'', dec p (get it ''amount'')),
             (''customer_bin'', get it ''customer_bin''),
             (''dumping_flag'', JBool (truthy (get_default it ''dumping_flag'' (JBool False)))),
             (''ref_lot_status_id'', get it ''ref_lot_status_id''),
             (''system_id'', get it ''system_id''),
             (''last_update_at'', JTime now),
             (''is_deleted'', JBool False)]"

definition incr_contract_row :: "py \<Rightarrow> int \<Rightarrow> item \<Rightarrow> int \<Rightarrow> row" where
  "incr_contract_row p now it k =
     map_of [(''id'', JInt k),
             (''trd_buy_id'', get it ''trd_buy_id''),
             (''customer_bin'', get it ''customer_bin''),
             (''supplier_biin'', get it ''supplier_biin''),
             (''contract_sum_wnds'', dec p (get it ''contract_sum_wnds'')),
             (''sign_date'', dt p (py_or (get it ''sign_date'') (get it ''crdate''))),
             (''plan_exec_date'', dt p (get it ''plan_exec_date'')),
             (''fakt_exec_date'', dt p (get it ''fakt_exec_date'')),
             (''fakt_sum'', dec p (get it ''fakt_sum'')),
             (''ref_contract_status_id'', get it ''ref_contract_status_id''),
             (''parent_id'', get it ''parent_id''),
             (''root_id'', get it ''root_id''),
             (''system_id'', get it ''system_id''),
             (''last_update_at'', JTime now),
             (''is_deleted'', JBool False)]"

definition incr_subject_row :: "py \<Rightarrow> int \<Rightarrow> item \<Rightarrow> int \<Rightarrow> row" where
  "incr_subject_row p now it k =
     map_of [(''id'', JInt k),
             (''bin'', get it ''bin''),
             (''iin'', get it ''iin''),
             (''name_ru'', get it ''name_ru''),
             (''regdate'', dt p (get it ''regdate'')),
             (''crdate'', dt p (get it ''crdate'')),
             (''mark_small_employer'', get_default it ''mark_small_employer'' (JInt 0)),
             (''mark_resident'', get_default it ''mark_resident'' (JInt 1)),
             (''system_id'', get it ''system_id''),
             (''last_update_at'', JTime now),
             (''is_deleted'', JBool False)]"

definition upsert_one ::
  "string \<Rightarrow> string \<Rightarrow> string list \<Rightarrow> (item \<Rightarrow> int \<Rightarrow> row) \<Rightarrow> item \<Rightarrow> etl_db \<Rightarrow> error + etl_db" where
  \<comment> \<open>build the row of one item (key column \<open>key\<close>) and run the single-row upsert\<close>
  "upsert_one tname key cols mk it d =
     (case primary_key key it of
        Inl e \<Rightarrow> Inl e
      | Inr k \<Rightarrow> Inr (execute_upsert tname cols [(k, mk it k)] d))"

definition upsert_trd_buy :: "py \<Rightarrow> int \<Rightarrow> item \<Rightarrow> etl_db \<Rightarrow> error + etl_db" where
  "upsert_trd_buy p now = upsert_one ''trd_buy'' ''id'' incr_trd_buy_cols (incr_trd_buy_row p now)"

definition upsert_lot :: "py \<Rightarrow> int \<Rightarrow> item \<Rightarrow> etl_db \<Rightarrow> error + etl_db" where
  "upsert_lot p now = upsert_one ''lots'' ''id'' incr_lot_cols (incr_lot_row p now)"

definition upsert_contract :: "py \<Rightarrow> int \<Rightarrow> item \<Rightarrow> etl_db \<Rightarrow> error + etl_db" where
  "upsert_contract p now = upsert_one ''contract'' ''id'' incr_contract_cols (incr_contract_row p now)"

definition upsert_subject :: "py \<Rightarrow> int \<Rightarrow> item \<Rightarrow> etl_db \<Rightarrow> error + etl_db" where
  "upsert_subject p now = upsert_one ''subject'' ''pid'' incr_subject_cols (incr_subject_row p now)"

definition soft_delete :: "py \<Rightarrow> int \<Rightarrow> jval \<Rightarrow> jval \<Rightarrow> etl_db \<Rightarrow> error + etl_db" where
  \<comment> \<open>\<^verbatim>\<open>UPDATE model SET is_deleted = true, last_update_at = now WHERE id = int(entity_id)\<close>\<close>
  "soft_delete p now entity_type entity_id d =
     (case model_map entity_type of
        None \<Rightarrow> Inr d
      | Some tname \<Rightarrow>
          (case py_int p entity_id of
             None \<Rightarrow> Inl ValueError
           | Some k \<Rightarrow>
               (case tables d tname k of
                  None \<Rightarrow> Inr d
                | Some r \<Rightarrow>
                    Inr (d\<lparr>tables := (tables d)
                            (tname := (tables d tname)
                               (k \<mapsto> r(''is_deleted'' \<mapsto> JBool True,
                                        ''last_update_at'' \<mapsto> JTime now)))\<rparr>))))"

text \<open>
  \<^verbatim>\<open>client.fetch_by_id\<close> is the parameter \<open>fetch_by_id\<close>: \<open>Inr None\<close> on a 404, \<open>Inl e\<close>
  when the call raises.
\<close>

definition fetch_and_upsert ::
  "py \<Rightarrow> (string \<Rightarrow> jval \<Rightarrow> error + item option) \<Rightarrow> int \<Rightarrow> jval \<Rightarrow> jval \<Rightarrow> etl_db \<Rightarrow> error + etl_db" where
  "fetch_and_upsert p fetch_by_id now entity_type entity_id d =
     (case ENTITY_ENDPOINT_MAP entity_type of
        None \<Rightarrow> Inr d
      | Some endpoint \<Rightarrow>
          (case fetch_by_id endpoint entity_id of
             Inl e \<Rightarrow> Inl e
           | Inr None \<Rightarrow> Inr d
           | Inr (Some obj) \<Rightarrow>
               if obj = Map.empty then Inr d
               else if entity_type = JStr ''TrdBuy'' then upsert_trd_buy p now obj d
               else if entity_type = JStr ''Lots'' then upsert_lot p now obj d
               else if entity_type = JStr ''Contract'' then upsert_contract p now obj d
               else if entity_type = JStr ''Subject'' then upsert_subject p now obj d
               else Inr d))"

record summary =
  processed :: nat
  updated :: nat
  deleted :: nat
  sm_errors :: nat

definition process_entry ::
  "py \<Rightarrow> (string \<Rightarrow> jval \<Rightarrow> error + item option) \<Rightarrow> int \<Rightarrow> item \<Rightarrow> etl_db \<times> summary
     \<Rightarrow> error + etl_db \<times> summary" where
  "process_entry p fetch_by_id now entry st =
     (let entity_type = py_or (get entry ''entity_type'') (get entry ''object_type'');
          entity_id = py_or (get entry ''entity_id'') (get entry ''object_id'');
          action = get_default entry ''action'' (JStr ''U'')
      in if \<not> truthy entity_type \<or> \<not> truthy entity_id then Inr st
         else if action = JStr ''D'' then
           (case soft_delete p now entity_type entity_id (fst st) of
              Inl e \<Rightarrow> Inl e
            | Inr d' \<Rightarrow> Inr (d', (snd st)\<lparr>deleted := deleted (snd st) + 1\<rparr>))
         else
           (case fetch_and_upsert p fetch_by_id now entity_type entity_id (fst st) of
              Inl e \<Rightarrow> Inl e
            | Inr d' \<Rightarrow> Inr (d', (snd st)\<lparr>updated := updated (snd st) + 1\<rparr>)))"

fun process_entries ::
  "py \<Rightarrow> (string \<Rightarrow> jval \<Rightarrow> error + item option) \<Rightarrow> int \<Rightarrow> item list \<Rightarrow> etl_db \<times> summary
     \<Rightarrow> etl_db \<times> summary" where
  \<comment> \<open>the \<^verbatim>\<open>for entry in journal_entries\<close> loop: an entry that raises is counted and skipped\<close>
  "process_entries p fetch_by_id now [] st = st"
| "process_entries p fetch_by_id now (entry # es) st =
     (case process_entry p fetch_by_id now entry st of
        Inl e \<Rightarrow> process_entries p fetch_by_id now es
                   (fst st, (snd st)\<lparr>sm_errors := sm_errors (snd st) + 1\<rparr>)
      | Inr st' \<Rightarrow> process_entries p fetch_by_id now es
                     (fst st', (snd st')\<lparr>processed := processed (snd st') + 1\<rparr>))"

definition save_cursor :: "int \<Rightarrow> string \<Rightarrow> string \<Rightarrow> etl_db \<Rightarrow> etl_db" where
  \<comment> \<open>\<^verbatim>\<open>BackfillETL._save_cursor\<close>: nothing is written for an empty cursor\<close>
  "save_cursor now source_name cursor d =
     (if cursor = [] then d
      else d\<lparr>etl_cursors := (etl_cursors d)
               (source_name \<mapsto> \<lparr>cursor_value = cursor, updated_at = now\<rparr>)\<rparr>)"

definition update_cursor :: "int \<Rightarrow> string \<Rightarrow> etl_db \<Rightarrow> etl_db" where
  \<comment> \<open>\<^verbatim>\<open>IncrementalETL._update_cursor\<close>\<close>
  "update_cursor now date_to d =
     d\<lparr>etl_cursors := (etl_cursors d)(''journal'' \<mapsto> \<lparr>cursor_value = date_to, updated_at = now\<rparr>)\<rparr>"

definition start_run :: "string \<Rightarrow> int \<Rightarrow> etl_db \<Rightarrow> etl_db \<times> nat" where
  "start_run rtype now d =
     (d\<lparr>etl_runs := etl_runs d @ [\<lparr>run_type = rtype, started_at = now, finished_at = None,
                                     status = ''running''\<rparr>]\<rparr>,
      length (etl_runs d))"

definition finish_run :: "nat \<Rightarrow> string \<Rightarrow> int \<Rightarrow> etl_db \<Rightarrow> etl_db" where
  "finish_run run_id st now d =
     (if run_id < length (etl_runs d)
      then d\<lparr>etl_runs := (etl_runs d)
               [run_id := (etl_runs d ! run_id)\<lparr>finished_at := Some now, status := st\<rparr>]\<rparr>
      else d)"

definition incremental_run ::
  "py \<Rightarrow> (string \<Rightarrow> jval \<Rightarrow> error + item option) \<Rightarrow> (error + item list) \<Rightarrow> int \<Rightarrow> string
     \<Rightarrow> etl_db \<Rightarrow> etl_db \<times> (error + summary)" where
  \<comment> \<open>\<^verbatim>\<open>IncrementalETL.run\<close>; \<open>journal\<close> is what \<^verbatim>\<open>client.get_journal\<close> returns or raises\<close>
  "incremental_run p fetch_by_id journal now date_to d =
     (let (d0, run_id) = start_run ''incremental'' now d
      in case journal of
           Inl e \<Rightarrow> (finish_run run_id ''failed'' now d0, Inl e)
         | Inr journal_entries \<Rightarrow>
             (let (d1, s) = process_entries p fetch_by_id now journal_entries
                              (d0, \<lparr>processed = 0, updated = 0, deleted = 0, sm_errors = 0\<rparr>)
              in (finish_run run_id ''success'' now (update_cursor now date_to d1), Inr s)))"

subsection \<open>Backfill (\<^verbatim>\<open>app/etl/backfill.py\<close>)\<close>

text \<open>
  The class defines most loaders twice; the later definitions, the ones with
  checkpoints, are the methods the class ends up with, and the ones modelled.

  \<^verbatim>\<open>client.paginate\<close> is the parameter \<open>paginate\<close>: for an endpoint, the events the
  generator produces. \<open>Page batch next_cursor f\<close> is a yielded page with its checkpoint
  (\<^verbatim>\<open>""\<close> at the end of the data); \<open>FetchFails\<close> is the generator raising after its
  retries. The database may reject or lose a statement: \<open>f\<close> says whether the page's
  upsert (\<open>UpsertFault\<close>, at \<^verbatim>\<open>execute\<close> or \<^verbatim>\<open>commit\<close>) or the saving of its cursor
  (\<open>CursorFault\<close>) raises.
\<close>

datatype fault = NoFault | UpsertFault | CursorFault

datatype event = Page "item list" string fault | FetchFails

definition in_window :: "py \<Rightarrow> string \<Rightarrow> string \<Rightarrow> int option \<Rightarrow> error + bool" where
  \<comment> \<open>\<^verbatim>\<open>not (d and not (fromisoformat(date_from) <= d <= fromisoformat(date_to)))\<close>\<close>
  "in_window p date_from date_to v =
     (case v of
        None \<Rightarrow> Inr True
      | Some t \<Rightarrow>
          (case fromisoformat p date_from of
             None \<Rightarrow> Inl ValueError
           | Some lo \<Rightarrow>
               if \<not> lo \<le> t then Inr False
               else (case fromisoformat p date_to of
                       None \<Rightarrow> Inl ValueError
                     | Some hi \<Rightarrow> Inr (t \<le> hi))))"

definition backfill_trd_buy_cols :: "string list" where
  "backfill_trd_buy_cols = [''ref_buy_status_id'', ''total_sum'', ''last_update_at'']"

definition backfill_lot_cols :: "string list" where
  "backfill_lot_cols = [''amount'', ''ref_lot_status_id'', ''dumping_flag'', ''last_update_at'']"

definition backfill_contract_cols :: "string list" where
  "backfill_contract_cols =
     [''contract_sum_wnds'', ''fakt_sum'', ''fakt_exec_date'', ''ref_contract_status_id'',
      ''last_update_at'']"

definition backfill_subject_cols :: "string list" where
  "backfill_subject_cols =
     [''name_ru'', ''regdate'', ''crdate'', ''mark_small_employer'', ''mark_resident'',
      ''email'', ''phone'', ''last_update_at'']"

definition backfill_trd_buy_row :: "py \<Rightarrow> string \<Rightarrow> string \<Rightarrow> item \<Rightarrow> error + (int \<times> row) option" where
  "backfill_trd_buy_row p date_from date_to it =
     (let pub_date = parse_dt p (get it ''publish_date'')
      in case in_window p date_from date_to pub_date of
           Inl e \<Rightarrow> Inl e
         | Inr False \<Rightarrow> Inr None
         | Inr True \<Rightarrow>
             (case primary_key ''id'' it of
                Inl e \<Rightarrow> Inl e
              | Inr k \<Rightarrow>
                  Inr (Some (k, map_of
                    [(''id'', JInt k),
                     (''number_anno'', get it ''number_anno''),
                     (''name_ru'', get it ''name_ru''),
                     (''name_kz'', get it ''name_kz''),
                     (''ref_trade_methods_id'', get it ''ref_trade_methods_id''),
                     (''publish_date'', (case pub_date of None \<Rightarrow> JNull | Some t \<Rightarrow> JTime t)),
                     (''start_date'', dt p (get it ''start_date'')),
                     (''end_date'', dt p (get it ''end_date'')),
                     (''total_sum'', dec p (get it ''total_sum'')),
                     (''ref_buy_status_id'', get it ''ref_buy_status_id''),
                     (''org_bin'', get it ''org_bin''),
                     (''system_id'', get it ''system_id''),
                     (''singl_org_sign'', get_default it ''singl_org_sign'' (JInt 0)),
                     (''is_light_industry'', get_default it ''is_light_industry'' (JInt 0)),
                     (''is_construction_work'', get_default it ''is_construction_work'' (JInt 0)),
                     (''last_update_at'', dt p (get it ''index_date'')),
                     (''is_deleted'', JBool False)]))))"

definition backfill_lot_row :: "py \<Rightarrow> item \<Rightarrow> error + (int \<times> row) option" where
  "backfill_lot_row p it =
     (case primary_key ''id'' it of
        Inl e \<Rightarrow> Inl e
      | Inr k \<Rightarrow>
          Inr (Some (k, map_of
            [(''id'', JInt k),
             (''trd_buy_id'', py_or (get it ''trd_buy_id'') (get it ''buy_id'')),
             (''lot_number'',
                py_or (get it ''lot_number'') (JStr (py_str p (get_default it ''id'' (JStr ''''))))),
             (''name_ru'', get it ''name_ru''),
             (''name_kz'', get it ''name_kz''),
             (''amount'', dec p (get it ''amount'')),
             (''customer_bin'', get it ''customer_bin''),
             (''customer_name'', get it ''customer_name_ru''),
             (''dumping_flag'', JBool (truthy (get_default it ''dumping_flag'' (JBool False)))),
             (''union_lots_flag'', JBool (truthy (get_default it ''union_lots_flag'' (JBool False)))),
             (''ref_lot_status_id'', get it ''ref_lot_status_id''),
             (''singl_org_sign'', get_default it ''singl_org_sign'' (JInt 0)),
             (''is_light_industry'', get_default it ''is_light_industry'' (JInt 0)),
             (''is_construction_work'', get_default it ''is_construction_work'' (JInt 0)),
             (''disable_person_id'', get_default it ''disable_person_id'' (JInt 0)),
             (''system_id'', get it ''system_id''),
             (''last_update_at'', dt p (get it ''index_date'')),
             (''is_deleted'', JBool False)])))"

definition backfill_contract_row :: "py \<Rightarrow> string \<Rightarrow> string \<Rightarrow> item \<Rightarrow> error + (int \<times> row) option" where
  "backfill_contract_row p date_from date_to it =
     (let sign_date = parse_dt p (py_or (get it ''sign_date'') (get it ''crdate''))
      in case in_window p date_from date_to sign_date of
           Inl e \<Rightarrow> Inl e
         | Inr False \<Rightarrow> Inr None
         | Inr True \<Rightarrow>
             (case primary_key ''id'' it of
                Inl e \<Rightarrow> Inl e
              | Inr k \<Rightarrow>
                  Inr (Some (k, map_of
                    [(''id'', JInt k),
                     (''trd_buy_id'', get it ''trd_buy_id''),
                     (''contract_number'', get it ''contract_number''),
                     (''contract_number_sys'', get it ''contract_number_sys''),
                     (''trd_buy_number_anno'', get it ''trd_buy_number_anno''),
                     (''customer_bin'', get it ''customer_bin''),
                     (''supplier_biin'', get it ''supplier_biin''),
                     (''contract_sum_wnds'', dec p (get it ''contract_sum_wnds'')),
                     (''sign_date'', (case sign_date of None \<Rightarrow> JNull | Some t \<Rightarrow> JTime t)),
                     (''plan_exec_date'', dt p (get it ''plan_exec_date'')),
                     (''fakt_exec_date'', dt p (get it ''fakt_exec_date'')),
                     (''fakt_sum'', dec p (get it ''fakt_sum'')),
                     (''ref_contract_status_id'', get it ''ref_contract_status_id''),
                     (''ref_contract_type_id'', get it ''ref_contract_type_id''),
                     (''parent_id'', get it ''parent_id''),
                     (''root_id'', get it ''root_id''),
                     (''supplier_legal_address'', get it ''supplier_legal_address''),
                     (''customer_legal_address'', get it ''customer_legal_address''),
                     (''is_gu'', get_default it ''is_gu'' (JInt 0)),
                     (''exchange_rate'', get it ''exchange_rate''),
                     (''system_id'', get it ''system_id''),
                     (''last_update_at'', dt p (get it ''last_update_date'')),
                     (''is_deleted'', JBool False)]))))"

definition backfill_subject_row :: "py \<Rightarrow> item \<Rightarrow> error + (int \<times> row) option" where
  "backfill_subject_row p it =
     (case primary_key ''pid'' it of
        Inl e \<Rightarrow> Inl e
      | Inr k \<Rightarrow>
          Inr (Some (k, map_of
            [(''id'', JInt k),
             (''bin'', get it ''bin''),
             (''iin'', get it ''iin''),
             (''inn'', get it ''inn''),
             (''unp'', get it ''unp''),
             (''name_ru'', get it ''name_ru''),
             (''name_kz'', get it ''name_kz''),
             (''full_name_ru'', get it ''full_name_ru''),
             (''regdate'', dt p (get it ''regdate'')),
             (''crdate'', dt p (get it ''crdate'')),
             (''year'', get it ''year''),
             (''type_supplier'', get it ''type_supplier''),
             (''mark_small_employer'', get_default it ''mark_small_employer'' (JInt 0)),
             (''mark_resident'', get_default it ''mark_resident'' (JInt 1)),
             (''mark_patronymic_producer'', get_default it ''mark_patronymic_producer'' (JInt 0)),
             (''mark_national_company'', get_default it ''mark_national_company'' (JInt 0)),
             (''mark_world_company'', get_default it ''mark_world_company'' (JInt 0)),
             (''mark_state_monopoly'', get_default it ''mark_state_monopoly'' (JInt 0)),
             (''mark_natural_monopoly'', get_default it ''mark_natural_monopoly'' (JInt 0)),
             (''oked_list'', get it ''oked_list''),
             (''krp_code'', get it ''krp_code''),
             (''kse_code'', get it ''kse_code''),
             (''ref_kopf_code'', get it ''ref_kopf_code''),
             (''qvazi'', get_default it ''qvazi'' (JInt 0)),
             (''customer'', get_default it ''customer'' (JInt 0)),
             (''supplier'', get_default it ''supplier'' (JInt 0)),
             (''organizer'', get_default it ''organizer'' (JInt 0)),
             (''is_single_org'', get_default it ''is_single_org'' (JInt 0)),
             (''email'', get it ''email''),
             (''phone'', get it ''phone''),
             (''website'', get it ''website''),
             (''country_code'', JStr (py_str p (get_default it ''country_code'' (JStr '''')))),
             (''system_id'', get it ''system_id''),
             (''last_update_at'', dt p (get it ''last_update_date'')),
             (''is_deleted'', JBool False)])))"

fun build_rows :: "(item \<Rightarrow> error + (int \<times> row) option) \<Rightarrow> item list \<Rightarrow> error + (int \<times> row) list" where
  \<comment> \<open>the \<^verbatim>\<open>for item in batch\<close> loop filling \<^verbatim>\<open>rows\<close>\<close>
  "build_rows build [] = Inr []"
| "build_rows build (it # its) =
     (case build it of
        Inl e \<Rightarrow> Inl e
      | Inr r \<Rightarrow>
          (case build_rows build its of
             Inl e \<Rightarrow> Inl e
           | Inr rows \<Rightarrow> Inr ((case r of None \<Rightarrow> [] | Some kr \<Rightarrow> [kr]) @ rows)))"

fun load_pages ::
  "string \<Rightarrow> string list \<Rightarrow> (item \<Rightarrow> error + (int \<times> row) option) \<Rightarrow> string \<Rightarrow> int \<Rightarrow> event list
     \<Rightarrow> etl_db \<times> nat \<Rightarrow> etl_db \<times> (error + nat)" where
  \<comment> \<open>the \<^verbatim>\<open>async for batch, next_cursor in self.client.paginate(endpoint)\<close> loop\<close>
  "load_pages tname cols build source now [] (d, count') = (d, Inr count')"
| "load_pages tname cols build source now (FetchFails # evs) (d, count') = (d, Inl UpstreamError)"
| "load_pages tname cols build source now (Page batch next_cursor f # evs) (d, count') =
     (case build_rows build batch of
        Inl e \<Rightarrow> (d, Inl e)
      | Inr rows \<Rightarrow>
          if rows \<noteq> [] \<and> f = UpsertFault then (d, Inl DatabaseError)
          else
            (let d1 = (if rows \<noteq> [] then execute_upsert tname cols rows d else d);
                 count1 = count' + length rows
             in if next_cursor \<noteq> [] then
                  (if f = CursorFault then (d1, Inl DatabaseError)
                   else load_pages tname cols build source now evs
                          (save_cursor now source next_cursor d1, count1))
                else load_pages tname cols build source now evs (d1, count1)))"

definition get_cursor :: "string \<Rightarrow> etl_db \<Rightarrow> string option" where
  "get_cursor source_name d = map_option cursor_value (etl_cursors d source_name)"

definition start_endpoint :: "string \<Rightarrow> string \<Rightarrow> etl_db \<Rightarrow> string" where
  \<comment> \<open>\<^verbatim>\<open>start_cursor if start_cursor else default\<close>\<close>
  "start_endpoint source dflt d =
     (case get_cursor source d of
        None \<Rightarrow> dflt
      | Some c \<Rightarrow> if c \<noteq> [] then c else dflt)"

definition load_trd_buy ::
  "py \<Rightarrow> (string \<Rightarrow> event list) \<Rightarrow> string \<Rightarrow> string \<Rightarrow> int \<Rightarrow> etl_db \<Rightarrow> etl_db \<times> (error + nat)" where
  "load_trd_buy p paginate date_from date_to now d =
     load_pages ''trd_buy'' backfill_trd_buy_cols (backfill_trd_buy_row p date_from date_to)
       ''backfill_trd_buy'' now
       (paginate (start_endpoint ''backfill_trd_buy'' ''/v3/trd-buy'' d)) (d, 0)"

definition load_lots ::
  "py \<Rightarrow> (string \<Rightarrow> event list) \<Rightarrow> int \<Rightarrow> etl_db \<Rightarrow> etl_db \<times> (error + nat)" where
  "load_lots p paginate now d =
     load_pages ''lots'' backfill_lot_cols (backfill_lot_row p) ''backfill_lots'' now
       (paginate (start_endpoint ''backfill_lots'' ''/v3/lots'' d)) (d, 0)"

definition load_contracts ::
  "py \<Rightarrow> (string \<Rightarrow> event list) \<Rightarrow> string \<Rightarrow> string \<Rightarrow> int \<Rightarrow> etl_db \<Rightarrow> etl_db \<times> (error + nat)" where
  "load_contracts p paginate date_from date_to now d =
     load_pages ''contract'' backfill_contract_cols (backfill_contract_row p date_from date_to)
       ''backfill_contracts'' now
       (paginate (start_endpoint ''backfill_contracts'' ''/v3/contract'' d)) (d, 0)"

definition load_subjects ::
  "py \<Rightarrow> (string \<Rightarrow> event list) \<Rightarrow> int \<Rightarrow> etl_db \<Rightarrow> etl_db \<times> (error + nat)" where
  "load_subjects p paginate now d =
     load_pages ''subject'' backfill_subject_cols (backfill_subject_row p) ''backfill_subjects'' now
       (paginate (start_endpoint ''backfill_subjects'' ''/v3/subject/all'' d)) (d, 0)"

subsection \<open>The page loop in two steps\<close>





definition identity_columns :: "string list" where
  "identity_columns =
     [''id'', ''number_anno'', ''org_bin'', ''trd_buy_id'', ''lot_number'', ''customer_bin'',
      ''supplier_biin'', ''contract_number'', ''contract_number_sys'', ''trd_buy_number_anno'',
      ''parent_id'', ''root_id'', ''bin'', ''iin'', ''inn'', ''unp'', ''system_id'']"


section \<open>Example stores and configurations\<close>

definition empty_db :: db where
  "empty_db = \<lparr>trd_buys = [], lots = [], trd_apps = [], contracts = [], subjects = [], rnus = [],
               treasury_pays = [], acts = None, risk_flags = [], risk_scores = []\<rparr>"

definition cfg_two :: config where
  "cfg_two = \<lparr>indicators = [(''DUMPING_FLAG'', 1, ''price dumping''),
                             (''SHORT_DEADLINE'', 3, ''short deadline'')],
              low_max = 30, medium_max = 60\<rparr>"


definition db_dumping :: db where
  \<comment> \<open>one lot without tender, its dumping flag set\<close>
  "db_dumping = empty_db\<lparr>lots := [\<lparr>lot_id = 1, lot_trd_buy_id = None, lot_amount = Some 100,
                 lot_customer_bin = None, lot_dumping_flag = Some True, lot_is_deleted = False\<rparr>]\<rparr>"



definition six_lots :: "rat \<Rightarrow> db" where
  \<comment> \<open>tender 7 with six lots of the same amount\<close>
  "six_lots amount =
     empty_db\<lparr>lots := map (\<lambda>i. \<lparr>lot_id = i, lot_trd_buy_id = Some 7, lot_amount = Some amount,
                                  lot_customer_bin = None, lot_dumping_flag = None,
                                  lot_is_deleted = False\<rparr>) [1, 2, 3, 4, 5, 6]\<rparr>"

definition contracts_of :: "string \<Rightarrow> (int \<times> string) list \<Rightarrow> contract list" where
  \<comment> \<open>contracts of one customer: number \<open>i\<close> goes to the given supplier on day \<open>i\<close>\<close>
  "contracts_of customer xs =
     map (\<lambda>(i, s). \<lparr>ct_id = i, ct_trd_buy_id = None, ct_customer_bin = Some customer,
                     ct_supplier_biin = Some s, ct_contract_sum_wnds = None,
                     ct_sign_date = Some (i * 86400), ct_plan_exec_date = None,
                     ct_parent_id = None, ct_root_id = None, ct_is_deleted = False\<rparr>) xs"





definition db_addendum :: "bool \<Rightarrow> db" where
  \<comment> \<open>contract 1 (sum 100) and its addendum 2 (sum 125), signed ten days later; the flag
      says whether the addendum is soft-deleted\<close>
  "db_addendum addendum_deleted =
     empty_db\<lparr>contracts :=
       [\<lparr>ct_id = 1, ct_trd_buy_id = Some 5, ct_customer_bin = Some ''X'',
         ct_supplier_biin = Some ''Y'', ct_contract_sum_wnds = Some 100,
         ct_sign_date = Some 0, ct_plan_exec_date = Some 8640000, ct_parent_id = None,
         ct_root_id = Some 1, ct_is_deleted = False\<rparr>,
        \<lparr>ct_id = 2, ct_trd_buy_id = Some 5, ct_customer_bin = Some ''X'',
         ct_supplier_biin = Some ''Y'', ct_contract_sum_wnds = Some 125,
         ct_sign_date = Some 864000, ct_plan_exec_date = Some 8640000, ct_parent_id = Some 1,
         ct_root_id = Some 1, ct_is_deleted = addendum_deleted\<rparr>]\<rparr>"

definition dec_int :: "string \<Rightarrow> int option" where
  \<comment> \<open>a plain decimal reader, for the example interpreter below\<close>
  "dec_int s =
     (if s \<noteq> [] \<and> list_all (\<lambda>c. c \<in> set ''0123456789'') s
      then Some (foldl (\<lambda>n c. 10 * n + (of_char c - 48)) 0 s)
      else None)"

definition py_example :: py where
  \<comment> \<open>one admissible reading of the built-ins: dates are written as day numbers\<close>
  "py_example =
     \<lparr>fromisoformat = (\<lambda>s. map_option (\<lambda>n. n * 86400) (dec_int s)),
      py_float = (\<lambda>v. case v of JInt n \<Rightarrow> Some (of_int n) | JNum x \<Rightarrow> Some x | _ \<Rightarrow> None),
      py_int = (\<lambda>v. case v of JInt n \<Rightarrow> Some n | JStr s \<Rightarrow> dec_int s | _ \<Rightarrow> None),
      py_str = (\<lambda>v. case v of JStr s \<Rightarrow> s | _ \<Rightarrow> [])\<rparr>"

definition empty_etl_db :: etl_db where
  "empty_etl_db = \<lparr>tables = (\<lambda>tname. Map.empty), etl_cursors = Map.empty, etl_runs = []\<rparr>"

definition tender_row :: "int \<Rightarrow> row" where
  "tender_row k = map_of [(''id'', JInt k), (''number_anno'', JStr ''A-1''),
                          (''total_sum'', JNum 100), (''is_deleted'', JBool False)]"

definition etl_db_tender5 :: etl_db where
  "etl_db_tender5 = empty_etl_db\<lparr>tables := (\<lambda>tname. Map.empty)(''trd_buy'' := [5 \<mapsto> tender_row 5])\<rparr>"




definition item_tender :: "int \<Rightarrow> item" where
  "item_tender k =
     map_of [(''id'', JInt k), (''number_anno'', JStr ''B-2''), (''total_sum'', JInt 200),
             (''ref_buy_status_id'', JInt 3)]"



definition db_one_day :: db where
  \<comment> \<open>tender 5, open for one day\<close>
  "db_one_day =
     empty_db\<lparr>trd_buys := [\<lparr>tb_id = 5, tb_start_date = Some 0, tb_end_date = Some 86400,
                             tb_last_update_at = None, tb_is_deleted = False\<rparr>]\<rparr>"

definition db_five_of_six :: db where
  \<comment> \<open>six contracts of customer C, five of them won by A\<close>
  "db_five_of_six =
     empty_db\<lparr>contracts :=
       contracts_of ''C'' [(1, ''A''), (2, ''A''), (3, ''B''), (4, ''A''), (5, ''A''), (6, ''A'')]\<rparr>"

section \<open>Verified properties\<close>

subsection \<open>Score and level\<close>

lemmas engine_defs =
  assess_lot_def first_def lot_checks_def truthy_int_def truthy_str_def truthy_num_def
  normalize_score_def raw_score_of_def weight_of_def WEIGHTS_def MAX_SCORE_def py_div_def
  round1_def round_half_even_def get_level_def top_reasons_of_def description_of_def
  sorted_by_weight_desc_def or0_def











subsection \<open>Lot splitting\<close>


text \<open>
  The bound on the average is 5,000,000 and not 10,000,000: six lots of 6,000,000 each
  do not trigger, six lots of 4,000,000 each do.
\<close>

lemma lot_splitting_threshold:
  "map_sum id flag (check_lot_splitting (six_lots 4000000) 7) = Inr True \<and>
   map_sum id flag (check_lot_splitting (six_lots 6000000) 7) = Inr False \<and>
   map_sum id val (check_lot_splitting (six_lots 6000000) 7) = Inr (Some 6)"
  by (simp add: check_lot_splitting_def tender_lots_def sql_sum_def sql_avg_def or0_def Let_def
                non_null_def six_lots_def empty_db_def)

subsection \<open>Carousel pattern\<close>











subsection \<open>Missing linked data\<close>


































subsection \<open>Addendum value increase\<close>




subsection \<open>Soft-deleted rows\<close>

text \<open>
  Claim C5 holds for the aggregate queries over contracts and lots, which all filter on
  \<^verbatim>\<open>is_deleted\<close>: a soft-deleted contract added to the store changes neither count of
  \<^verbatim>\<open>check_recurring_winner\<close>.
\<close>

lemma customer_contracts_ignore_deleted:
  "ct_is_deleted x \<Longrightarrow> customer_contracts (d\<lparr>contracts := contracts d @ [x]\<rparr>) cb = customer_contracts d cb"
  by (simp add: customer_contracts_def)

lemma recurring_winner_ignores_deleted:
  "ct_is_deleted x \<Longrightarrow>
   check_recurring_winner (d\<lparr>contracts := contracts d @ [x]\<rparr>) cb s = check_recurring_winner d cb s"
  by (simp only: check_recurring_winner_def customer_contracts_ignore_deleted)

text \<open>
  Claim C5 fails for the queries that lack the filter. \<^verbatim>\<open>check_win_min_then_addendum\<close> picks
  the earliest child contract whether deleted or not: with contract 1 alone the
  indicator is not triggered; once its soft-deleted addendum is in the store it is
  triggered with value 10. \<^verbatim>\<open>check_addendum_value_increase\<close> likewise evaluates the
  soft-deleted addendum itself.
\<close>

theorem soft_deleted_addendum_counts:
  "check_win_min_then_addendum ((db_addendum True)\<lparr>contracts := [hd (contracts (db_addendum True))]\<rparr>) 1
     = Inr not_triggered
   \<and> map_sum id (\<lambda>r. (flag r, val r)) (check_win_min_then_addendum (db_addendum True) 1)
     = Inr (True, Some 10)"
  by (simp add: db_addendum_def empty_db_def check_win_min_then_addendum_def contract_by_id_def
        first_def truthy_int_def order_by_def days_def)

lemma soft_deleted_addendum_evaluated:
  "map_sum id flag (check_addendum_value_increase (db_addendum True) 2) = Inr True"
  by (simp add: db_addendum_def empty_db_def contract_by_id_def first_def truthy_int_def
        check_addendum_value_increase_def truthy_num_def py_div_def Let_def)

subsection \<open>Persisting flags and score\<close>

text \<open>
  Claim C7 describes an upsert keyed by \<open>(entity_type, entity_id)\<close>. With a unique index
  on these two columns \<open>upsert_score\<close> is that upsert: it succeeds, keeps the keys
  distinct and leaves one row for the lot, carrying the new score, level and reasons;
  and every pass appends its flag rows.
\<close>

lemma persist_appends_flags:
  "persist uniq now l a d = Inr d' \<Longrightarrow> risk_flags d' = risk_flags d @ flag_rows_of now l (as_flags a)"
  by (auto simp: persist_def Let_def split: sum.splits)

lemma same_entity_key: "same_entity r r' = (entity_key r = entity_key r')"
  by (auto simp: same_entity_def entity_key_def)

lemma upsert_score_with_unique_index:
  assumes ok: "conflict_target_ok uniq [''entity_type'', ''entity_id'']"
      and dist: "distinct (map entity_key tbl)"
  shows "\<exists>tbl'. upsert_score uniq row tbl = Inr tbl'
           \<and> distinct (map entity_key tbl')
           \<and> set (map entity_key tbl') = insert (entity_key row) (set (map entity_key tbl))
           \<and> (\<exists>r \<in> set tbl'. entity_key r = entity_key row \<and> rs_score r = rs_score row
                 \<and> rs_level r = rs_level row
                 \<and> rs_top_reasons_jsonb r = rs_top_reasons_jsonb row)"
proof (cases "\<exists>r \<in> set tbl. same_entity r row")
  case True
  define f where
    "f = (\<lambda>r. if same_entity r row
               then r\<lparr>rs_score := rs_score row, rs_level := rs_level row,
                      rs_top_reasons_jsonb := rs_top_reasons_jsonb row,
                      rs_computed_at := rs_computed_at row\<rparr>
               else r)"
  have res: "upsert_score uniq row tbl = Inr (map f tbl)"
    using True ok unfolding upsert_score_def f_def by simp
  have key: "entity_key (f r) = entity_key r" for r
    by (simp add: f_def entity_key_def)
  have keys: "map entity_key (map f tbl) = map entity_key tbl"
    by (simp add: key)
  from True obtain r where r: "r \<in> set tbl" "same_entity r row" by blast
  have fr: "f r \<in> set (map f tbl)" using r(1) by simp
  have "entity_key (f r) = entity_key row \<and> rs_score (f r) = rs_score row
          \<and> rs_level (f r) = rs_level row
          \<and> rs_top_reasons_jsonb (f r) = rs_top_reasons_jsonb row"
    using r(2) by (simp add: f_def same_entity_def entity_key_def)
  with fr have ex: "\<exists>q \<in> set (map f tbl). entity_key q = entity_key row \<and> rs_score q = rs_score row
          \<and> rs_level q = rs_level row \<and> rs_top_reasons_jsonb q = rs_top_reasons_jsonb row"
    by blast
  have "entity_key row \<in> set (map entity_key tbl)"
    using r by (metis same_entity_key image_eqI set_map)
  then have ins: "insert (entity_key row) (set (map entity_key tbl)) = set (map entity_key tbl)"
    by blast
  have d': "distinct (map entity_key (map f tbl))"
    unfolding keys by (rule dist)
  have s': "set (map entity_key (map f tbl)) = insert (entity_key row) (set (map entity_key tbl))"
    unfolding keys using ins by simp
  show ?thesis
    unfolding res using d' s' ex by blast
next
  case False
  then have notin: "entity_key row \<notin> set (map entity_key tbl)"
    by (auto simp: same_entity_key)
  have res: "upsert_score uniq row tbl = Inr (tbl @ [row])"
    using False ok unfolding upsert_score_def by simp
  have d': "distinct (map entity_key (tbl @ [row]))"
    using dist notin by simp
  have s': "set (map entity_key (tbl @ [row])) = insert (entity_key row) (set (map entity_key tbl))"
    by simp
  have "row \<in> set (tbl @ [row])" by simp
  then have ex: "\<exists>q \<in> set (tbl @ [row]). entity_key q = entity_key row \<and> rs_score q = rs_score row
          \<and> rs_level q = rs_level row \<and> rs_top_reasons_jsonb q = rs_top_reasons_jsonb row"
    by blast
  show ?thesis
    unfolding res using d' s' ex by blast
qed

text \<open>
  Claim C7 on the code: the schema of the repository declares no such index (see
  \<open>risk_scores_unique\<close>), so the statement is rejected: \<^verbatim>\<open>compute_lot_score\<close> raises before the commit, nothing is
  persisted, and \<^verbatim>\<open>FeatureEngine.run\<close> counts the lot as an error.
\<close>

theorem score_upsert_rejected:
  "compute_lot_score cfg_two 0 db_dumping 1 = Inl (NoMatchingConstraint [''entity_type'', ''entity_id''])
   \<and> run cfg_two 0 [1] db_dumping = (db_dumping, \<lparr>lots_processed = 0, errors = 1\<rparr>)"
  by (simp add: compute_lot_score_def run_def persist_def upsert_score_def conflict_target_ok_def
        risk_scores_unique_def engine_defs check_dumping_flag_def cfg_two_def db_dumping_def empty_db_def)

subsection \<open>Journal deletions\<close>






subsection \<open>Columns overwritten on conflict\<close>

lemma upsert_row_key:
  "upsert_row cols (k, r) tbl k =
     Some (case tbl k of None \<Rightarrow> r | Some old \<Rightarrow> (\<lambda>c. if c \<in> set cols then r c else old c))"
  by (auto simp: upsert_row_def split: option.splits)

lemma upsert_row_other: "k' \<noteq> k \<Longrightarrow> upsert_row cols (k, r) tbl k' = tbl k'"
  by (simp add: upsert_row_def split: option.splits)

lemma upsert_row_frame:
  assumes "tbl k = Some cur" "c \<notin> set cols"
  shows "\<exists>new. upsert_row cols kr tbl k = Some new \<and> new c = cur c"
proof (cases "fst kr = k")
  case True
  with assms show ?thesis by (simp add: upsert_row_def)
next
  case False
  with assms show ?thesis by (simp add: upsert_row_def split: option.splits)
qed

lemma upsert_rows_frame:
  assumes "tbl k = Some cur" "c \<notin> set cols"
  shows "\<exists>new. upsert_rows cols rows tbl k = Some new \<and> new c = cur c"
  using assms
proof (induction rows arbitrary: tbl cur)
  case Nil
  then show ?case by (simp add: upsert_rows_def)
next
  case (Cons kr rows)
  from upsert_row_frame [where tbl = tbl and k = k and cur = cur and c = c and cols = cols and kr = kr]
    Cons.prems
  obtain mid where mid: "upsert_row cols kr tbl k = Some mid" "mid c = cur c" by blast
  from Cons.IH [where tbl = "upsert_row cols kr tbl" and cur = mid] mid Cons.prems(2) show ?case
    by (simp add: upsert_rows_def)
qed

lemma execute_upsert_frame:
  assumes "tables d tn k = Some cur" "c \<notin> set cols"
  shows "\<exists>new. tables (execute_upsert tname cols rows d) tn k = Some new \<and> new c = cur c"
proof (cases "tn = tname")
  case True
  with upsert_rows_frame [of "tables d tname" k cur c cols rows] assms show ?thesis
    by (simp add: execute_upsert_def)
next
  case False
  with assms show ?thesis by (simp add: execute_upsert_def)
qed

lemma upsert_one_frame:
  assumes "upsert_one tname key cols mk it d = Inr d'" "tables d tn k = Some cur" "c \<notin> set cols"
  shows "\<exists>new. tables d' tn k = Some new \<and> new c = cur c"
  using assms
    execute_upsert_frame [where d = d and tn = tn and k = k and cur = cur and c = c and cols = cols]
  by (auto simp: upsert_one_def split: sum.splits)

lemma upsert_one_overwrites:
  assumes "upsert_one tname key cols mk it d = Inr d'" "primary_key key it = Inr k" "c \<in> set cols"
  shows "\<exists>new. tables d' tname k = Some new \<and> new c = mk it k c"
  using assms
  by (auto simp: upsert_one_def execute_upsert_def upsert_rows_def upsert_row_def split: option.splits)

lemma save_cursor_tables: "tables (save_cursor now source c d) = tables d"
  by (simp add: save_cursor_def)

lemma load_pages_frame:
  assumes "load_pages tname cols build source now evs (d, n) = (d', res)"
      and "tables d tn k = Some cur" "c \<notin> set cols"
  shows "\<exists>new. tables d' tn k = Some new \<and> new c = cur c"
  using assms
proof (induction evs arbitrary: d n cur)
  case Nil
  then show ?case by simp
next
  case (Cons ev evs)
  show ?case
  proof (cases ev)
    case FetchFails
    with Cons.prems show ?thesis by simp
  next
    case (Page batch next_cursor f)
    show ?thesis
    proof (cases "build_rows build batch")
      case (Inl e)
      with Page Cons.prems show ?thesis by simp
    next
      case (Inr rows)
      define d1 where "d1 = (if rows \<noteq> [] then execute_upsert tname cols rows d else d)"
      from execute_upsert_frame [where d = d and tn = tn and k = k and cur = cur and c = c
             and cols = cols and tname = tname and rows = rows] Cons.prems(2,3)
      obtain mid where
        mid: "tables d1 tn k = Some mid" "mid c = cur c"
        unfolding d1_def by (cases "rows = []") auto
      have mid': "tables (save_cursor now source next_cursor d1) tn k = Some mid"
        using mid(1) by (simp add: save_cursor_tables)
      consider (stop0) "rows \<noteq> [] \<and> f = UpsertFault"
        | (stop1) "\<not> (rows \<noteq> [] \<and> f = UpsertFault)" "next_cursor \<noteq> []" "f = CursorFault"
        | (go_save) "\<not> (rows \<noteq> [] \<and> f = UpsertFault)" "next_cursor \<noteq> []" "f \<noteq> CursorFault"
        | (go) "\<not> (rows \<noteq> [] \<and> f = UpsertFault)" "next_cursor = []"
        by blast
      then show ?thesis
      proof cases
        case stop0
        with Page Inr Cons.prems show ?thesis by simp
      next
        case stop1
        with Page Inr Cons.prems(1) have "d' = d1" by (simp add: d1_def Let_def)
        with mid show ?thesis by simp
      next
        case go_save
        with Page Inr Cons.prems(1) have
          "load_pages tname cols build source now evs
             (save_cursor now source next_cursor d1, n + length rows) = (d', res)"
          by (simp add: d1_def Let_def)
        from Cons.IH [where d = "save_cursor now source next_cursor d1" and cur = mid
                        and n = "n + length rows"] this mid' Cons.prems(3) mid(2)
        show ?thesis by simp
      next
        case go
        with Page Inr Cons.prems(1) have
          "load_pages tname cols build source now evs (d1, n + length rows) = (d', res)"
          by (simp add: d1_def Let_def)
        from Cons.IH [where d = d1 and cur = mid and n = "n + length rows"] this mid Cons.prems(3)
        show ?thesis by simp
      qed
    qed
  qed
qed

text \<open>
  Claim C8, as the code has it. For TrdBuy, Lots, Contract and Subject the journal
  upsert is the same \<^verbatim>\<open>ON CONFLICT (id) DO UPDATE\<close> as the backfill's, run on one row.
  Its set of overwritten columns is contained in the backfill's set: equal for TrdBuy,
  Lots and Contract, strictly smaller for Subject only. No identity column is in any of
  the eight sets, and on a conflict every column outside the set keeps its stored value,
  in the journal upsert and in a whole backfill load alike.
\<close>

theorem conflict_update_columns:
  "set incr_trd_buy_cols = set backfill_trd_buy_cols
   \<and> set incr_lot_cols = set backfill_lot_cols
   \<and> set incr_contract_cols = set backfill_contract_cols
   \<and> set incr_subject_cols \<subset> set backfill_subject_cols
   \<and> set identity_columns \<inter>
       set (incr_trd_buy_cols @ incr_lot_cols @ incr_contract_cols @ incr_subject_cols @
            backfill_trd_buy_cols @ backfill_lot_cols @ backfill_contract_cols @
            backfill_subject_cols) = {}
   \<and> (primary_key ''id'' it = Inr k \<longrightarrow>
        upsert_trd_buy p now it d =
          Inr (execute_upsert ''trd_buy'' incr_trd_buy_cols [(k, incr_trd_buy_row p now it k)] d)
        \<and> upsert_lot p now it d =
          Inr (execute_upsert ''lots'' incr_lot_cols [(k, incr_lot_row p now it k)] d)
        \<and> upsert_contract p now it d =
          Inr (execute_upsert ''contract'' incr_contract_cols [(k, incr_contract_row p now it k)] d))
   \<and> (primary_key ''pid'' it = Inr k \<longrightarrow>
        upsert_subject p now it d =
          Inr (execute_upsert ''subject'' incr_subject_cols [(k, incr_subject_row p now it k)] d))
   \<and> (tables d tn k = Some cur \<longrightarrow>
        (upsert_trd_buy p now it d = Inr d' \<and> c \<notin> set incr_trd_buy_cols
           \<longrightarrow> (\<exists>new. tables d' tn k = Some new \<and> new c = cur c))
        \<and> (upsert_lot p now it d = Inr d' \<and> c \<notin> set incr_lot_cols
           \<longrightarrow> (\<exists>new. tables d' tn k = Some new \<and> new c = cur c))
        \<and> (upsert_contract p now it d = Inr d' \<and> c \<notin> set incr_contract_cols
           \<longrightarrow> (\<exists>new. tables d' tn k = Some new \<and> new c = cur c))
        \<and> (upsert_subject p now it d = Inr d' \<and> c \<notin> set incr_subject_cols
           \<longrightarrow> (\<exists>new. tables d' tn k = Some new \<and> new c = cur c))
        \<and> (load_trd_buy p paginate date_from date_to now d = (d', res) \<and> c \<notin> set backfill_trd_buy_cols
           \<longrightarrow> (\<exists>new. tables d' tn k = Some new \<and> new c = cur c))
        \<and> (load_lots p paginate now d = (d', res) \<and> c \<notin> set backfill_lot_cols
           \<longrightarrow> (\<exists>new. tables d' tn k = Some new \<and> new c = cur c))
        \<and> (load_contracts p paginate date_from date_to now d = (d', res)
            \<and> c \<notin> set backfill_contract_cols
           \<longrightarrow> (\<exists>new. tables d' tn k = Some new \<and> new c = cur c))
        \<and> (load_subjects p paginate now d = (d', res) \<and> c \<notin> set backfill_subject_cols
           \<longrightarrow> (\<exists>new. tables d' tn k = Some new \<and> new c = cur c)))"
proof -
  have sets: "set incr_trd_buy_cols = set backfill_trd_buy_cols"
    "set incr_lot_cols = set backfill_lot_cols"
    "set incr_contract_cols = set backfill_contract_cols"
    by (simp_all add: incr_trd_buy_cols_def backfill_trd_buy_cols_def incr_lot_cols_def
          backfill_lot_cols_def incr_contract_cols_def backfill_contract_cols_def)
  have subj: "set incr_subject_cols \<subset> set backfill_subject_cols"
    by code_simp
  have ident: "set identity_columns \<inter>
       set (incr_trd_buy_cols @ incr_lot_cols @ incr_contract_cols @ incr_subject_cols @
            backfill_trd_buy_cols @ backfill_lot_cols @ backfill_contract_cols @
            backfill_subject_cols) = {}"
    by code_simp
  have rule_id: "primary_key ''id'' it = Inr k \<longrightarrow>
        upsert_trd_buy p now it d =
          Inr (execute_upsert ''trd_buy'' incr_trd_buy_cols [(k, incr_trd_buy_row p now it k)] d)
        \<and> upsert_lot p now it d =
          Inr (execute_upsert ''lots'' incr_lot_cols [(k, incr_lot_row p now it k)] d)
        \<and> upsert_contract p now it d =
          Inr (execute_upsert ''contract'' incr_contract_cols [(k, incr_contract_row p now it k)] d)"
    by (simp add: upsert_trd_buy_def upsert_lot_def upsert_contract_def upsert_one_def)
  have rule_pid: "primary_key ''pid'' it = Inr k \<longrightarrow>
        upsert_subject p now it d =
          Inr (execute_upsert ''subject'' incr_subject_cols [(k, incr_subject_row p now it k)] d)"
    by (simp add: upsert_subject_def upsert_one_def)
  have frame: "tables d tn k = Some cur \<longrightarrow>
        (upsert_trd_buy p now it d = Inr d' \<and> c \<notin> set incr_trd_buy_cols
           \<longrightarrow> (\<exists>new. tables d' tn k = Some new \<and> new c = cur c))
        \<and> (upsert_lot p now it d = Inr d' \<and> c \<notin> set incr_lot_cols
           \<longrightarrow> (\<exists>new. tables d' tn k = Some new \<and> new c = cur c))
        \<and> (upsert_contract p now it d = Inr d' \<and> c \<notin> set incr_contract_cols
           \<longrightarrow> (\<exists>new. tables d' tn k = Some new \<and> new c = cur c))
        \<and> (upsert_subject p now it d = Inr d' \<and> c \<notin> set incr_subject_cols
           \<longrightarrow> (\<exists>new. tables d' tn k = Some new \<and> new c = cur c))
        \<and> (load_trd_buy p paginate date_from date_to now d = (d', res) \<and> c \<notin> set backfill_trd_buy_cols
           \<longrightarrow> (\<exists>new. tables d' tn k = Some new \<and> new c = cur c))
        \<and> (load_lots p paginate now d = (d', res) \<and> c \<notin> set backfill_lot_cols
           \<longrightarrow> (\<exists>new. tables d' tn k = Some new \<and> new c = cur c))
        \<and> (load_contracts p paginate date_from date_to now d = (d', res)
            \<and> c \<notin> set backfill_contract_cols
           \<longrightarrow> (\<exists>new. tables d' tn k = Some new \<and> new c = cur c))
        \<and> (load_subjects p paginate now d = (d', res) \<and> c \<notin> set backfill_subject_cols
           \<longrightarrow> (\<exists>new. tables d' tn k = Some new \<and> new c = cur c))"
    unfolding upsert_trd_buy_def upsert_lot_def upsert_contract_def upsert_subject_def
      load_trd_buy_def load_lots_def load_contracts_def load_subjects_def
    by (intro conjI impI; (elim conjE)?; (erule upsert_one_frame load_pages_frame); assumption)
  from sets subj ident rule_id rule_pid frame show ?thesis
    by (intro conjI)
qed

theorem conflict_update_columns_witness:
  "map_sum id (\<lambda>d'. map_option (\<lambda>r. (r ''number_anno'', r ''total_sum'', r ''last_update_at''))
                      (tables d' ''trd_buy'' 5))
     (upsert_trd_buy py_example 1000 (item_tender 5) etl_db_tender5)
   = Inr (Some (Some (JStr ''A-1''), Some (JNum 200), Some (JTime 1000)))
   \<and> (\<lambda>(d', res). (map_option (\<lambda>r. (r ''number_anno'', r ''total_sum'')) (tables d' ''trd_buy'' 5), res))
       (load_trd_buy py_example (\<lambda>endpoint. [Page [item_tender 5] [] NoFault]) ''1'' ''2'' 1000
          etl_db_tender5)
     = (Some (Some (JStr ''A-1''), Some (JNum 200)), Inr 1)"
proof -
  have k: "primary_key ''id'' (item_tender 5) = Inr 5"
    by (simp add: primary_key_def item_tender_def)
  note inst = conflict_update_columns
    [where it = "item_tender 5" and k = 5 and p = py_example and now = 1000 and d = etl_db_tender5
       and tn = "''trd_buy''" and cur = "tender_row 5" and c = "''number_anno''"]
  have up: "upsert_trd_buy py_example 1000 (item_tender 5) etl_db_tender5 =
          Inr (execute_upsert ''trd_buy'' incr_trd_buy_cols
                 [(5, incr_trd_buy_row py_example 1000 (item_tender 5) 5)] etl_db_tender5)"
    using inst k by blast
  have "map_sum id (\<lambda>d'. map_option (\<lambda>r. (r ''number_anno'', r ''total_sum'', r ''last_update_at''))
                      (tables d' ''trd_buy'' 5))
     (upsert_trd_buy py_example 1000 (item_tender 5) etl_db_tender5)
   = Inr (Some (Some (JStr ''A-1''), Some (JNum 200), Some (JTime 1000)))"
    unfolding up
    by (simp add: item_tender_def execute_upsert_def
        upsert_rows_def upsert_row_def etl_db_tender5_def empty_etl_db_def tender_row_def
        incr_trd_buy_cols_def incr_trd_buy_row_def get_def dec_def safe_decimal_def py_example_def)
  moreover have "(\<lambda>(d', res). (map_option (\<lambda>r. (r ''number_anno'', r ''total_sum'')) (tables d' ''trd_buy'' 5), res))
       (load_trd_buy py_example (\<lambda>endpoint. [Page [item_tender 5] [] NoFault]) ''1'' ''2'' 1000
          etl_db_tender5)
     = (Some (Some (JStr ''A-1''), Some (JNum 200)), Inr 1)"
    by (simp add: load_trd_buy_def backfill_trd_buy_row_def in_window_def parse_dt_def
        primary_key_def item_tender_def execute_upsert_def
        upsert_rows_def upsert_row_def etl_db_tender5_def empty_etl_db_def tender_row_def
        backfill_trd_buy_cols_def get_def get_default_def dec_def dt_def safe_decimal_def
        py_example_def save_cursor_def start_endpoint_def get_cursor_def)
  ultimately show ?thesis
    by (intro conjI)
qed

text \<open>
  The claim as stated fails where it calls the journal's set narrower: for TrdBuy the two
  sets are the same.
\<close>

theorem trd_buy_conflict_set_not_narrower:
  "\<not> set incr_trd_buy_cols \<subset> set backfill_trd_buy_cols"
  by (simp add: incr_trd_buy_cols_def backfill_trd_buy_cols_def)

subsection \<open>Checkpoints\<close>








subsection \<open>The examples of the specification\<close>

text \<open>
  A tender open from one day to the next has a short deadline, with value 1; a supplier
  with 5 of a customer's 6 contracts is a recurring winner, with value 83.3; a contract
  of sum 100 with an addendum of sum 125 signed ten days later triggers the win-min
  indicator, with value 10.
\<close>

lemma specification_examples:
  "map_sum id (\<lambda>r. (flag r, val r)) (check_short_deadline db_one_day 5) = Inr (True, Some 1)
   \<and> map_sum id (\<lambda>r. (flag r, val r)) (check_recurring_winner db_five_of_six ''C'' ''A'')
       = Inr (True, Some (833 / 10))
   \<and> map_sum id (\<lambda>r. (flag r, val r)) (check_win_min_then_addendum (db_addendum False) 1)
       = Inr (True, Some 10)"
  by code_simp

end
